theory Spec2Isabelle
  imports Complex_Main
begin

section \<open>Decimal values\<close>

text \<open>
  Python's \<open>Decimal\<close> values are modelled by the rational number they denote. The money
  fields of the models are \<open>DecimalField(max_digits=10, decimal_places=2)\<close>, far below the
  28 significant digits of the default decimal context, so products and differences of
  such values are exact.
\<close>

type_synonym decimal = rat

text \<open>Rounding to an integer under \<open>ROUND_HALF_EVEN\<close>, the default of the decimal context.\<close>

definition round_half_even :: "rat \<Rightarrow> int" where
  "round_half_even x =
     (let f = \<lfloor>x\<rfloor>; r = x - of_int f
      in if r < 1 / 2 then f
         else if 1 / 2 < r then f + 1
         else if even f then f else f + 1)"

text \<open>\<open>x.quantize(Decimal('0.01'))\<close>: the nearest value with two fractional digits.\<close>

definition quantize_cent :: "decimal \<Rightarrow> decimal" where
  "quantize_cent x = of_int (round_half_even (x * 100)) / 100"

text \<open>A value with at most two fractional digits, as every stored money field is.\<close>

definition is_cents :: "decimal \<Rightarrow> bool" where
  "is_cents x = (of_int \<lfloor>x * 100\<rfloor> = x * 100)"

section \<open>Dates and times\<close>

text \<open>
  A \<open>datetime\<close> is the number of microseconds since 0001-01-01 00:00 (day 1 of Python's
  proleptic calendar, a Monday), read in one fixed time zone. \<open>weekday()\<close> counts Monday
  as 0; \<open>date()\<close> is the day number and \<open>time()\<close> the microseconds since midnight.
\<close>

type_synonym datetime = int
type_synonym date = int
type_synonym time = int

definition MICROSECONDS_PER_DAY :: int where
  "MICROSECONDS_PER_DAY = 86400000000"

definition datetime_date :: "datetime \<Rightarrow> date" where
  "datetime_date t = t div MICROSECONDS_PER_DAY"

definition datetime_time :: "datetime \<Rightarrow> time" where
  "datetime_time t = t mod MICROSECONDS_PER_DAY"

definition datetime_weekday :: "datetime \<Rightarrow> nat" where
  "datetime_weekday t = nat (datetime_date t mod 7)"

text \<open>The length of \<open>m\<close> minutes, in microseconds.\<close>

definition timedelta_minutes :: "nat \<Rightarrow> int" where
  "timedelta_minutes m = int m * 60000000"

section \<open>Data model\<close>

text \<open>
  One record per model class of \<open>models.py\<close>, with the fields the booking core reads or
  writes; a foreign key holds the primary key of the row it refers to. Field names carry
  a prefix for their model, since record fields share one name space.
\<close>

type_synonym uuid = nat
type_synonym user = nat

record owner_profile =
  owner_id :: uuid
  owner_user :: user

record caregiver_profile =
  cg_id :: uuid
  cg_user :: user
  cg_rating_average :: decimal
  cg_rating_count :: nat

record pet =
  pet_id :: uuid
  pet_owner :: uuid

record service_type =
  st_id :: uuid
  st_code :: string
  st_base_duration_minutes :: nat

record caregiver_service =
  cs_id :: uuid
  cs_caregiver :: uuid
  cs_service_type :: uuid
  cs_price_per_unit :: decimal
  cs_is_active :: bool

record caregiver_availability =
  av_id :: uuid
  av_caregiver :: uuid
  av_weekday :: nat
  av_start_time :: time
  av_end_time :: time
  av_is_recurring :: bool

record time_off =
  to_id :: uuid
  to_caregiver :: uuid
  to_date_from :: date
  to_date_to :: date

record booking =
  bk_id :: uuid
  bk_created_at :: datetime
  bk_updated_at :: datetime
  bk_owner :: uuid
  bk_caregiver :: uuid
  bk_pet :: uuid
  bk_service_type :: uuid
  bk_start_datetime :: datetime
  bk_end_datetime :: datetime
  bk_duration_minutes :: nat
  bk_status :: string
  bk_owner_notes :: string
  bk_caregiver_notes :: string
  bk_price_subtotal :: decimal
  bk_platform_fee :: decimal
  bk_caregiver_earnings :: decimal
  bk_payment_status :: string

record review =
  rv_id :: uuid
  rv_created_at :: datetime
  rv_updated_at :: datetime
  rv_booking :: uuid
  rv_author :: user
  rv_target_caregiver :: "uuid option"
  rv_rating :: nat
  rv_comment :: string

record transaction_log =
  tl_id :: uuid
  tl_created_at :: datetime
  tl_updated_at :: datetime
  tl_booking :: "uuid option"
  tl_user :: "user option"
  tl_direction :: string
  tl_amount :: decimal
  tl_description :: string

text \<open>The database: one list of rows per table, in insertion order.\<close>

record database =
  owner_profiles :: "owner_profile list"
  caregiver_profiles :: "caregiver_profile list"
  pets :: "pet list"
  service_types :: "service_type list"
  caregiver_services :: "caregiver_service list"
  availabilities :: "caregiver_availability list"
  time_offs :: "time_off list"
  bookings :: "booking list"
  reviews :: "review list"
  transaction_logs :: "transaction_log list"

text \<open>
  Exceptions are values. An operation returns its outcome together with the object it was
  called on and the database as they are afterwards, so that what a failed call leaves
  behind can be stated.
\<close>

datatype error =
    ValueError string
  | ValidationError string
  | DoesNotExist
  | MultipleObjectsReturned
  | DatabaseError
  | IntegrityError
  | OverflowError
  | FieldError

definition STATUS_PENDING :: string where "STATUS_PENDING = ''pending''"
definition STATUS_ACCEPTED :: string where "STATUS_ACCEPTED = ''accepted''"
definition STATUS_REJECTED :: string where "STATUS_REJECTED = ''rejected''"
definition STATUS_CANCELLED :: string where "STATUS_CANCELLED = ''cancelled''"
definition STATUS_COMPLETED :: string where "STATUS_COMPLETED = ''completed''"

definition PAYMENT_PENDING :: string where "PAYMENT_PENDING = ''pending''"
definition PAYMENT_PAID :: string where "PAYMENT_PAID = ''paid''"
definition PAYMENT_REFUNDED :: string where "PAYMENT_REFUNDED = ''refunded''"

definition DIRECTION_CREDIT :: string where "DIRECTION_CREDIT = ''credit''"
definition DIRECTION_DEBIT :: string where "DIRECTION_DEBIT = ''debit''"

section \<open>Time arithmetic\<close>

text \<open>
  \<open>timezone.timedelta(minutes=m)\<close> raises \<open>OverflowError\<close> when the duration has more
  than 999999999 days. \<open>start + delta\<close> raises \<open>OverflowError\<close> when the result is not
  a date between 0001-01-01 and 9999-12-31, the day of ordinal 3652059.
\<close>

definition MAXORDINAL :: int where
  "MAXORDINAL = 3652059"

definition timedelta :: "nat \<Rightarrow> error + int" where
  "timedelta m =
     (if int m div 1440 > 999999999 then Inl OverflowError else Inr (timedelta_minutes m))"

definition datetime_add :: "datetime \<Rightarrow> int \<Rightarrow> error + datetime" where
  "datetime_add t delta =
     (let r = t + delta
      in if 0 \<le> r \<and> r < MAXORDINAL * MICROSECONDS_PER_DAY then Inr r
         else Inl OverflowError)"

section \<open>Query sets\<close>

text \<open>
  A filtered query set is the list of matching rows. \<open>.exists()\<close> tests it for a row;
  \<open>.get(...)\<close> returns the single match and raises \<open>DoesNotExist\<close> or
  \<open>MultipleObjectsReturned\<close> otherwise.
\<close>

definition exists_qs :: "'a list \<Rightarrow> bool" where
  "exists_qs rows = (rows \<noteq> [])"

definition get_qs :: "'a list \<Rightarrow> error + 'a" where
  "get_qs rows =
     (case rows of
        [] \<Rightarrow> Inl DoesNotExist
      | [r] \<Rightarrow> Inr r
      | _ \<Rightarrow> Inl MultipleObjectsReturned)"

section \<open>Binary floating point\<close>

text \<open>
  A Python float is a binary64 number. \<open>double_of x\<close> is the double nearest to \<open>x\<close>,
  ties to the even significand, for \<open>x\<close> in the range of the normal doubles: with
  \<open>2 ^ e \<le> \<bar>x\<bar> < 2 ^ (e + 1)\<close> the doubles are the multiples of \<open>2 ^ (e - 52)\<close>.
\<close>

fun bit_length :: "nat \<Rightarrow> nat" where
  "bit_length n = (if n = 0 then 0 else Suc (bit_length (n div 2)))"

definition floor_log2 :: "rat \<Rightarrow> int" where
  "floor_log2 x =
     (case quotient_of x of (p, q) \<Rightarrow>
        (let d = int (bit_length (nat p)) - int (bit_length (nat q))
         in if power_int 2 d \<le> x then d else d - 1))"

definition double_of :: "rat \<Rightarrow> rat" where
  "double_of x =
     (if x = 0 then 0
      else (let ulp = power_int 2 (floor_log2 \<bar>x\<bar> - 52)
            in sgn x * of_int (round_half_even (\<bar>x\<bar> / ulp)) * ulp))"

section \<open>Query expressions\<close>

text \<open>
  An expression of the ORM has an output field. \<open>Avg\<close> over an integer column has a
  \<open>FloatField\<close> and yields a Python float, or NULL over no rows; \<open>Count\<close> has an
  \<open>IntegerField\<close>. \<open>Coalesce\<close> takes the first argument that is not NULL, and its own
  output field is resolved from those of its arguments: the arguments that have one must
  all have the same, otherwise \<open>FieldError\<close> is raised. The literal \<open>0\<close> is wrapped as
  \<open>Value(0)\<close>, whose output field depends on the version of Django, which the sources
  do not pin: from Django 3.2 on it is an \<open>IntegerField\<close>, before that it has none.
\<close>

datatype output_field = FloatField | IntegerField

datatype django = Before_3_2 | From_3_2

definition resolve_output_field :: "output_field option list \<Rightarrow> error + output_field" where
  "resolve_output_field sources =
     (case List.map_filter (\<lambda>s. s) sources of
        [] \<Rightarrow> Inl FieldError
      | f # fs \<Rightarrow> if list_all (\<lambda>g. g = f) fs then Inr f else Inl FieldError)"

definition Value :: "django \<Rightarrow> 'a \<Rightarrow> output_field option \<times> 'a" where
  "Value dj v = (case dj of Before_3_2 \<Rightarrow> None | From_3_2 \<Rightarrow> Some IntegerField, v)"

definition Avg :: "nat list \<Rightarrow> output_field option \<times> rat option" where
  "Avg xs =
     (Some FloatField,
      if xs = [] then None
      else Some (double_of (of_nat (sum_list xs) / of_nat (length xs))))"

definition Count :: "'a list \<Rightarrow> output_field option \<times> nat option" where
  "Count rows = (Some IntegerField, Some (length rows))"

definition Coalesce ::
  "output_field option \<times> 'a option \<Rightarrow> output_field option \<times> 'a \<Rightarrow> error + 'a" where
  "Coalesce expr fallback =
     (case resolve_output_field [fst expr, fst fallback] of
        Inl e \<Rightarrow> Inl e
      | Inr _ \<Rightarrow> Inr (case snd expr of None \<Rightarrow> snd fallback | Some v \<Rightarrow> v))"

section \<open>Commission calculator\<close>

text \<open>
  \<open>compute_commission\<close> of \<open>models.py\<close>. The rate \<open>settings.PLATFORM_FEE_PERCENT\<close> is
  read from the project settings, which are not part of the sources at hand; it is the
  first argument here.
\<close>

definition compute_commission :: "decimal \<Rightarrow> decimal \<Rightarrow> decimal \<times> decimal" where
  "compute_commission PLATFORM_FEE_PERCENT amount =
     (let platform_fee = quantize_cent (amount * PLATFORM_FEE_PERCENT);
          caregiver_earnings = amount - platform_fee
      in (platform_fee, caregiver_earnings))"

section \<open>Availability resolver\<close>

text \<open>\<open>is_caregiver_available\<close> of \<open>models.py\<close>: three queries, in the order of the source.\<close>

definition is_caregiver_available ::
  "caregiver_profile \<Rightarrow> datetime \<Rightarrow> datetime \<Rightarrow> database \<Rightarrow> bool" where
  "is_caregiver_available caregiver start end_dt db =
     (let weekday = datetime_weekday start;
          time_range_ok = exists_qs (filter
            (\<lambda>a. av_caregiver a = cg_id caregiver
                 \<and> av_weekday a = weekday
                 \<and> av_start_time a \<le> datetime_time start
                 \<and> av_end_time a \<ge> datetime_time end_dt)
            (availabilities db))
      in if \<not> time_range_ok then False
         else if exists_qs (filter
            (\<lambda>t. to_caregiver t = cg_id caregiver
                 \<and> to_date_from t \<le> datetime_date start
                 \<and> to_date_to t \<ge> datetime_date end_dt)
            (time_offs db)) then False
         else
           (let overlapping = exists_qs (filter
              (\<lambda>b. bk_caregiver b = cg_id caregiver
                   \<and> bk_status b \<in> set [STATUS_PENDING, STATUS_ACCEPTED]
                   \<and> bk_start_datetime b < end_dt
                   \<and> bk_end_datetime b > start)
              (bookings db))
            in \<not> overlapping))"

section \<open>Booking state machine\<close>

definition ALLOWED_TRANSITIONS :: "string \<rightharpoonup> string set" where
  "ALLOWED_TRANSITIONS =
     [STATUS_PENDING \<mapsto> {STATUS_ACCEPTED, STATUS_REJECTED, STATUS_CANCELLED},
      STATUS_ACCEPTED \<mapsto> {STATUS_COMPLETED, STATUS_CANCELLED}]"

text \<open>
  \<open>self.save(update_fields=[f, 'updated_at'])\<close> on a booking: \<open>updated_at\<close> is an
  \<open>auto_now\<close> field and takes the time of the save; the row with the object's primary
  key receives the named fields, and a save that reaches no row raises \<open>DatabaseError\<close>.
\<close>

definition Booking_save_status ::
  "datetime \<Rightarrow> booking \<Rightarrow> database \<Rightarrow> (error + unit) \<times> booking \<times> database" where
  "Booking_save_status now self db =
     (let self' = self\<lparr>bk_updated_at := now\<rparr>
      in if \<not> exists_qs (filter (\<lambda>r. bk_id r = bk_id self') (bookings db))
         then (Inl DatabaseError, self', db)
         else (Inr (), self',
               db\<lparr>bookings := map
                 (\<lambda>r. if bk_id r = bk_id self'
                      then r\<lparr>bk_status := bk_status self', bk_updated_at := bk_updated_at self'\<rparr>
                      else r)
                 (bookings db)\<rparr>))"

definition Booking_save_payment_status ::
  "datetime \<Rightarrow> booking \<Rightarrow> database \<Rightarrow> (error + unit) \<times> booking \<times> database" where
  "Booking_save_payment_status now self db =
     (let self' = self\<lparr>bk_updated_at := now\<rparr>
      in if \<not> exists_qs (filter (\<lambda>r. bk_id r = bk_id self') (bookings db))
         then (Inl DatabaseError, self', db)
         else (Inr (), self',
               db\<lparr>bookings := map
                 (\<lambda>r. if bk_id r = bk_id self'
                      then r\<lparr>bk_payment_status := bk_payment_status self',
                             bk_updated_at := bk_updated_at self'\<rparr>
                      else r)
                 (bookings db)\<rparr>))"

text \<open>\<open>Booking.change_status\<close>.\<close>

definition change_status ::
  "datetime \<Rightarrow> string \<Rightarrow> booking \<Rightarrow> database \<Rightarrow> (error + unit) \<times> booking \<times> database" where
  "change_status now new_status self db =
     (let allowed = (case ALLOWED_TRANSITIONS (bk_status self) of
                       Some s \<Rightarrow> s | None \<Rightarrow> {})
      in if new_status \<notin> allowed
         then (Inl (ValueError (''Invalid transition from '' @ bk_status self
                                @ '' to '' @ new_status)), self, db)
         else Booking_save_status now (self\<lparr>bk_status := new_status\<rparr>) db)"

text \<open>\<open>self.caregiver\<close>: the caregiver row a booking's foreign key points to.\<close>

definition Booking_caregiver :: "booking \<Rightarrow> database \<Rightarrow> error + caregiver_profile" where
  "Booking_caregiver self db =
     get_qs (filter (\<lambda>c. cg_id c = bk_caregiver self) (caregiver_profiles db))"

text \<open>
  \<open>TransactionLog.objects.create(...)\<close>: a row with a new primary key, both time stamps
  set to the time of the insert.
\<close>

definition TransactionLog_create ::
  "uuid \<Rightarrow> datetime \<Rightarrow> uuid option \<Rightarrow> user option \<Rightarrow> string \<Rightarrow> decimal \<Rightarrow> string
   \<Rightarrow> database \<Rightarrow> database" where
  "TransactionLog_create new_id now booking usr direction amount description db =
     db\<lparr>transaction_logs := transaction_logs db @
        [\<lparr>tl_id = new_id, tl_created_at = now, tl_updated_at = now,
          tl_booking = booking, tl_user = usr, tl_direction = direction,
          tl_amount = amount, tl_description = description\<rparr>]\<rparr>"

text \<open>
  \<open>Booking.mark_paid\<close>. The method runs under \<open>transaction.atomic\<close>: when an exception
  leaves it, the database is as it was before the call, while the assignment to
  \<open>self.payment_status\<close> stays on the object.
\<close>

definition mark_paid ::
  "datetime \<Rightarrow> uuid \<Rightarrow> booking \<Rightarrow> database \<Rightarrow> (error + unit) \<times> booking \<times> database" where
  "mark_paid now new_id self db =
     (if bk_payment_status self = PAYMENT_PAID then (Inr (), self, db)
      else
        (case Booking_save_payment_status now (self\<lparr>bk_payment_status := PAYMENT_PAID\<rparr>) db of
           (Inl e, self', _) \<Rightarrow> (Inl e, self', db)
         | (Inr _, self', db') \<Rightarrow>
             (case Booking_caregiver self' db' of
                Inl e \<Rightarrow> (Inl e, self', db)
              | Inr caregiver \<Rightarrow>
                  (Inr (), self',
                   TransactionLog_create new_id now (Some (bk_id self'))
                     (Some (cg_user caregiver)) DIRECTION_CREDIT
                     (bk_caregiver_earnings self') ''Booking payout'' db'))))"

text \<open>Calling \<open>mark_paid\<close> once for every element of a list, on the same object.\<close>

fun mark_paid_times ::
  "(datetime \<times> uuid) list \<Rightarrow> booking \<Rightarrow> database \<Rightarrow> booking \<times> database" where
  "mark_paid_times [] self db = (self, db)"
| "mark_paid_times ((now, new_id) # calls) self db =
     (case mark_paid now new_id self db of
        (_, self', db') \<Rightarrow> mark_paid_times calls self' db')"


section \<open>Rating aggregator\<close>

text \<open>
  \<open>self.save(update_fields=['rating_average', 'rating_count'])\<close> on a caregiver profile.
\<close>

definition CaregiverProfile_save_ratings ::
  "caregiver_profile \<Rightarrow> database \<Rightarrow> (error + unit) \<times> caregiver_profile \<times> database" where
  "CaregiverProfile_save_ratings self db =
     (if \<not> exists_qs (filter (\<lambda>r. cg_id r = cg_id self) (caregiver_profiles db))
      then (Inl DatabaseError, self, db)
      else (Inr (), self,
            db\<lparr>caregiver_profiles := map
              (\<lambda>r. if cg_id r = cg_id self
                   then r\<lparr>cg_rating_average := cg_rating_average self,
                          cg_rating_count := cg_rating_count self\<rparr>
                   else r)
              (caregiver_profiles db)\<rparr>))"

text \<open>
  \<open>CaregiverProfile.recalc_ratings\<close>. An exception of the aggregate leaves the method
  before anything is assigned or saved. \<open>Decimal(avg)\<close> is the exact value of the float.
\<close>

definition recalc_ratings ::
  "django \<Rightarrow> caregiver_profile \<Rightarrow> database
   \<Rightarrow> (error + unit) \<times> caregiver_profile \<times> database" where
  "recalc_ratings dj self db =
     (let qs = filter (\<lambda>r. rv_target_caregiver r = Some (cg_id self)) (reviews db)
      in case Coalesce (Avg (map rv_rating qs)) (Value dj 0) of
           Inl e \<Rightarrow> (Inl e, self, db)
         | Inr avg \<Rightarrow>
             (case Coalesce (Count qs) (Value dj 0) of
                Inl e \<Rightarrow> (Inl e, self, db)
              | Inr count \<Rightarrow>
                  CaregiverProfile_save_ratings
                    (self\<lparr>cg_rating_average :=
                             (if avg \<noteq> 0 then quantize_cent avg else 0),
                           cg_rating_count := count\<rparr>) db))"

text \<open>
  \<open>super().save()\<close> of a review. A new object (\<open>_state.adding\<close>) is inserted, an existing
  one replaces the row with its primary key; \<open>booking\<close> is a one-to-one field, so a
  second row for the same booking violates its uniqueness. \<open>created_at\<close> is set on
  insert and \<open>updated_at\<close> on every save.
\<close>

definition Review_super_save :: "bool \<Rightarrow> datetime \<Rightarrow> review \<Rightarrow> database \<Rightarrow> error + database" where
  "Review_super_save adding now self db =
     (if adding then
        (if exists_qs (filter (\<lambda>r. rv_booking r = rv_booking self) (reviews db))
         then Inl IntegrityError
         else Inr (db\<lparr>reviews := reviews db @
                [self\<lparr>rv_created_at := now, rv_updated_at := now\<rparr>]\<rparr>))
      else
        (if exists_qs (filter (\<lambda>r. rv_id r \<noteq> rv_id self \<and> rv_booking r = rv_booking self)
               (reviews db))
         then Inl IntegrityError
         else if exists_qs (filter (\<lambda>r. rv_id r = rv_id self) (reviews db))
         then Inr (db\<lparr>reviews := map
                (\<lambda>r. if rv_id r = rv_id self then self\<lparr>rv_updated_at := now\<rparr> else r)
                (reviews db)\<rparr>)
         else Inr (db\<lparr>reviews := reviews db @ [self\<lparr>rv_updated_at := now\<rparr>]\<rparr>)))"

text \<open>\<open>self.target_caregiver\<close>: the caregiver row a review's foreign key points to.\<close>

definition Review_target_caregiver :: "review \<Rightarrow> database \<Rightarrow> error + caregiver_profile" where
  "Review_target_caregiver self db =
     (case rv_target_caregiver self of
        None \<Rightarrow> Inl DoesNotExist
      | Some c \<Rightarrow> get_qs (filter (\<lambda>r. cg_id r = c) (caregiver_profiles db)))"

text \<open>
  \<open>Review.save\<close>: the aggregates of the target caregiver are recomputed only when the
  object is new. No transaction encloses the two steps: an exception of the
  recomputation leaves the method after the review is stored.
\<close>

definition Review_save ::
  "django \<Rightarrow> bool \<Rightarrow> datetime \<Rightarrow> review \<Rightarrow> database \<Rightarrow> (error + unit) \<times> database" where
  "Review_save dj adding now self db =
     (let is_new = adding
      in case Review_super_save adding now self db of
           Inl e \<Rightarrow> (Inl e, db)
         | Inr db1 \<Rightarrow>
             if is_new \<and> rv_target_caregiver self \<noteq> None then
               (case Review_target_caregiver self db1 of
                  Inl e \<Rightarrow> (Inl e, db1)
                | Inr caregiver \<Rightarrow>
                    (case recalc_ratings dj caregiver db1 of
                       (Inl e, _, _) \<Rightarrow> (Inl e, db1)
                     | (Inr _, _, db2) \<Rightarrow> (Inr (), db2)))
             else (Inr (), db1))"

section \<open>Review creation\<close>

text \<open>
  The attributes \<open>ReviewSerializer.validate\<close> receives: \<open>booking\<close> is the booking object
  the submitted primary key resolved to.
\<close>

record review_attrs =
  ra_booking :: booking
  ra_rating :: nat
  ra_comment :: string

text \<open>
  \<open>ReviewSerializer.validate\<close>. \<open>hasattr(booking, 'review')\<close> holds when a review row
  refers to the booking. The result carries the attributes and \<open>target_caregiver\<close>.
\<close>

definition ReviewSerializer_validate ::
  "review_attrs \<Rightarrow> database \<Rightarrow> error + (review_attrs \<times> caregiver_profile)" where
  "ReviewSerializer_validate attrs db =
     (let booking = ra_booking attrs
      in if bk_status booking \<noteq> STATUS_COMPLETED
         then Inl (ValidationError ''Reviews are only allowed for completed bookings'')
         else if exists_qs (filter (\<lambda>r. rv_booking r = bk_id booking) (reviews db))
         then Inl (ValidationError ''A review already exists for this booking'')
         else (case Booking_caregiver booking db of
                 Inl e \<Rightarrow> Inl e
               | Inr caregiver \<Rightarrow> Inr (attrs, caregiver)))"

text \<open>
  \<open>ReviewSerializer.create\<close>: the author is the requesting user, and
  \<open>Review.objects.create\<close> saves a new object.
\<close>

definition ReviewSerializer_create ::
  "django \<Rightarrow> datetime \<Rightarrow> uuid \<Rightarrow> user \<Rightarrow> review_attrs \<times> caregiver_profile \<Rightarrow> database
   \<Rightarrow> (error + review) \<times> database" where
  "ReviewSerializer_create dj now new_id request_user validated_data db =
     (let attrs = fst validated_data;
          self = \<lparr>rv_id = new_id, rv_created_at = now, rv_updated_at = now,
                  rv_booking = bk_id (ra_booking attrs), rv_author = request_user,
                  rv_target_caregiver = Some (cg_id (snd validated_data)),
                  rv_rating = ra_rating attrs, rv_comment = ra_comment attrs\<rparr>
      in case Review_save dj True now self db of
           (Inl e, db') \<Rightarrow> (Inl e, db')
         | (Inr _, db') \<Rightarrow> (Inr self, db'))"

text \<open>Validation followed by creation, as the review endpoint runs them.\<close>

definition create_review ::
  "django \<Rightarrow> datetime \<Rightarrow> uuid \<Rightarrow> user \<Rightarrow> review_attrs \<Rightarrow> database
   \<Rightarrow> (error + review) \<times> database" where
  "create_review dj now new_id request_user attrs db =
     (case ReviewSerializer_validate attrs db of
        Inl e \<Rightarrow> (Inl e, db)
      | Inr validated_data \<Rightarrow>
          ReviewSerializer_create dj now new_id request_user validated_data db)"

section \<open>Booking creation\<close>

record booking_attrs =
  ba_pet_id :: uuid
  ba_caregiver_id :: uuid
  ba_service_type_code :: string
  ba_start_datetime :: datetime
  ba_duration_minutes :: nat
  ba_owner_notes :: "string option"

text \<open>What \<open>BookingCreateSerializer.validate\<close> adds to the attributes.\<close>

record booking_validated =
  bv_owner :: owner_profile
  bv_pet :: pet
  bv_caregiver :: caregiver_profile
  bv_service_type :: service_type
  bv_end_datetime :: datetime
  bv_price_subtotal :: decimal
  bv_platform_fee :: decimal
  bv_caregiver_earnings :: decimal

text \<open>
  \<open>BookingCreateSerializer.validate\<close>. Each \<open>try\<close> turns \<open>DoesNotExist\<close> into a
  \<open>ValidationError\<close>; any other exception of the lookup passes through. The end of the
  booking is computed before the checks of start, duration and availability, and an
  \<open>OverflowError\<close> of that addition passes through as well.
\<close>

definition BookingCreateSerializer_validate ::
  "decimal \<Rightarrow> datetime \<Rightarrow> user \<Rightarrow> booking_attrs \<Rightarrow> database \<Rightarrow> error + booking_validated" where
  "BookingCreateSerializer_validate PLATFORM_FEE_PERCENT now request_user attrs db =
     (case get_qs (filter (\<lambda>p. owner_user p = request_user) (owner_profiles db)) of
        Inl DoesNotExist \<Rightarrow> Inl (ValidationError ''Only owners can create bookings'')
      | Inl e \<Rightarrow> Inl e
      | Inr owner \<Rightarrow>
     (case get_qs (filter (\<lambda>p. pet_owner p = owner_id owner \<and> pet_id p = ba_pet_id attrs)
             (pets db)) of
        Inl DoesNotExist \<Rightarrow> Inl (ValidationError ''Pet not found'')
      | Inl e \<Rightarrow> Inl e
      | Inr pet \<Rightarrow>
     (case get_qs (filter (\<lambda>c. cg_id c = ba_caregiver_id attrs) (caregiver_profiles db)) of
        Inl DoesNotExist \<Rightarrow> Inl (ValidationError ''Caregiver not found'')
      | Inl e \<Rightarrow> Inl e
      | Inr caregiver \<Rightarrow>
     (case get_qs (filter (\<lambda>s. st_code s = ba_service_type_code attrs) (service_types db)) of
        Inl DoesNotExist \<Rightarrow> Inl (ValidationError ''Service type not found'')
      | Inl e \<Rightarrow> Inl e
      | Inr service_type \<Rightarrow>
     (case get_qs (filter
             (\<lambda>s. cs_caregiver s = cg_id caregiver \<and> cs_service_type s = st_id service_type
                  \<and> cs_is_active s)
             (caregiver_services db)) of
        Inl DoesNotExist \<Rightarrow> Inl (ValidationError ''Caregiver does not offer this service'')
      | Inl e \<Rightarrow> Inl e
      | Inr caregiver_service \<Rightarrow>
     (let start = ba_start_datetime attrs;
          duration = ba_duration_minutes attrs
      in case timedelta duration of
           Inl e \<Rightarrow> Inl e
         | Inr delta \<Rightarrow>
     (case datetime_add start delta of
        Inl e \<Rightarrow> Inl e
      | Inr end_dt \<Rightarrow>
         if start < now
         then Inl (ValidationError ''Start time must be in the future'')
         else if duration > st_base_duration_minutes service_type * 4
         then Inl (ValidationError ''Duration exceeds allowed maximum for service type'')
         else if \<not> is_caregiver_available caregiver start end_dt db
         then Inl (ValidationError ''Caregiver is not available for the selected time'')
         else
           (case compute_commission PLATFORM_FEE_PERCENT (cs_price_per_unit caregiver_service) of
              (platform_fee, caregiver_earnings) \<Rightarrow>
                Inr \<lparr>bv_owner = owner, bv_pet = pet, bv_caregiver = caregiver,
                     bv_service_type = service_type, bv_end_datetime = end_dt,
                     bv_price_subtotal = cs_price_per_unit caregiver_service,
                     bv_platform_fee = platform_fee,
                     bv_caregiver_earnings = caregiver_earnings\<rparr>))))))))"

text \<open>
  \<open>BookingCreateSerializer.create\<close>: \<open>Booking.objects.create\<close> with the validated data;
  \<open>status\<close>, \<open>payment_status\<close> and the notes left out take the defaults of the model.
\<close>

definition BookingCreateSerializer_create ::
  "datetime \<Rightarrow> uuid \<Rightarrow> booking_attrs \<Rightarrow> booking_validated \<Rightarrow> database \<Rightarrow> booking \<times> database" where
  "BookingCreateSerializer_create now new_id attrs validated db =
     (let self = \<lparr>bk_id = new_id, bk_created_at = now, bk_updated_at = now,
                  bk_owner = owner_id (bv_owner validated),
                  bk_caregiver = cg_id (bv_caregiver validated),
                  bk_pet = pet_id (bv_pet validated),
                  bk_service_type = st_id (bv_service_type validated),
                  bk_start_datetime = ba_start_datetime attrs,
                  bk_end_datetime = bv_end_datetime validated,
                  bk_duration_minutes = ba_duration_minutes attrs,
                  bk_status = STATUS_PENDING,
                  bk_owner_notes = (case ba_owner_notes attrs of None \<Rightarrow> [] | Some n \<Rightarrow> n),
                  bk_caregiver_notes = [],
                  bk_price_subtotal = bv_price_subtotal validated,
                  bk_platform_fee = bv_platform_fee validated,
                  bk_caregiver_earnings = bv_caregiver_earnings validated,
                  bk_payment_status = PAYMENT_PENDING\<rparr>
      in (self, db\<lparr>bookings := bookings db @ [self]\<rparr>))"

text \<open>Validation followed by creation, as the booking endpoint runs them.\<close>

definition create_booking ::
  "decimal \<Rightarrow> datetime \<Rightarrow> uuid \<Rightarrow> user \<Rightarrow> booking_attrs \<Rightarrow> database
   \<Rightarrow> (error + booking) \<times> database" where
  "create_booking PLATFORM_FEE_PERCENT now new_id request_user attrs db =
     (case BookingCreateSerializer_validate PLATFORM_FEE_PERCENT now request_user attrs db of
        Inl e \<Rightarrow> (Inl e, db)
      | Inr validated \<Rightarrow>
          (case BookingCreateSerializer_create now new_id attrs validated db of
             (self, db') \<Rightarrow> (Inr self, db')))"

section \<open>Vocabulary of the specification\<close>

text \<open>
  A money field is a \<open>DecimalField(max_digits=10, decimal_places=2)\<close>: a number of whole
  cents below 10^8, here not negative. A fee rate is a fraction between 0 and 1 written
  with at most 18 fractional digits. For such operands every product and difference that
  \<open>compute_commission\<close> forms has at most 28 significant digits, which the decimal
  context computes exactly.
\<close>

definition is_money :: "decimal \<Rightarrow> bool" where
  "is_money a = (is_cents a \<and> 0 \<le> a \<and> a < 10 ^ 8)"

definition is_rate :: "decimal \<Rightarrow> bool" where
  "is_rate P = (0 \<le> P \<and> P \<le> 1 \<and> of_int \<lfloor>P * 10 ^ 18\<rfloor> = P * 10 ^ 18)"

text \<open>The transition table as the specification writes it.\<close>

definition transition_table :: "string \<Rightarrow> string set" where
  "transition_table s =
     (if s = ''pending'' then {''accepted'', ''rejected'', ''cancelled''}
      else if s = ''accepted'' then {''completed'', ''cancelled''}
      else {})"

text \<open>A booking object is persisted when a row carries its primary key.\<close>

definition persisted :: "booking \<Rightarrow> database \<Rightarrow> bool" where
  "persisted self db = exists_qs (filter (\<lambda>r. bk_id r = bk_id self) (bookings db))"

text \<open>The ledger entry \<open>mark_paid\<close> writes for a booking whose caregiver is \<open>caregiver\<close>.\<close>

definition payout_entry :: "uuid \<Rightarrow> datetime \<Rightarrow> booking \<Rightarrow> caregiver_profile \<Rightarrow> transaction_log" where
  "payout_entry new_id now self caregiver =
     \<lparr>tl_id = new_id, tl_created_at = now, tl_updated_at = now,
      tl_booking = Some (bk_id self), tl_user = Some (cg_user caregiver),
      tl_direction = ''credit'', tl_amount = bk_caregiver_earnings self,
      tl_description = ''Booking payout''\<rparr>"

text \<open>The rows of a booking object after a successful \<open>mark_paid\<close>.\<close>

definition paid_rows :: "datetime \<Rightarrow> booking \<Rightarrow> booking list \<Rightarrow> booking list" where
  "paid_rows now self rows =
     map (\<lambda>r. if bk_id r = bk_id self
              then r\<lparr>bk_payment_status := ''paid'', bk_updated_at := now\<rparr> else r) rows"

text \<open>The money invariant of a booking, and the fields it is about.\<close>

definition money_balanced :: "booking \<Rightarrow> bool" where
  "money_balanced b = (bk_price_subtotal b = bk_platform_fee b + bk_caregiver_earnings b)"

definition money_fields :: "booking \<Rightarrow> uuid \<times> decimal \<times> decimal \<times> decimal" where
  "money_fields b = (bk_id b, bk_price_subtotal b, bk_platform_fee b, bk_caregiver_earnings b)"

text \<open>
  One operation of the core on the database: booking creation, a status change, payment
  marking or review creation, with any arguments and any outcome.
\<close>

inductive core_step :: "decimal \<Rightarrow> database \<Rightarrow> database \<Rightarrow> bool" for P where
  step_create_booking:
    "create_booking P now new_id request_user attrs db = (res, db') \<Longrightarrow> core_step P db db'"
| step_change_status:
    "change_status now new_status self db = (res, self', db') \<Longrightarrow> core_step P db db'"
| step_mark_paid:
    "mark_paid now new_id self db = (res, self', db') \<Longrightarrow> core_step P db db'"
| step_create_review:
    "create_review dj now new_id request_user attrs db = (ret, db') \<Longrightarrow> core_step P db db'"

text \<open>The ratings of the reviews that target a caregiver, and their mean.\<close>

definition ratings_of :: "database \<Rightarrow> uuid \<Rightarrow> nat list" where
  "ratings_of db c = map rv_rating (filter (\<lambda>r. rv_target_caregiver r = Some c) (reviews db))"

definition mean :: "nat list \<Rightarrow> rat" where
  "mean xs = of_nat (sum_list xs) / of_nat (length xs)"

definition rounded_mean :: "nat list \<Rightarrow> decimal" where
  "rounded_mean xs = (if xs = [] then 0 else quantize_cent (mean xs))"

text \<open>
  What the code stores for a list of ratings: their mean carried as a binary float and
  quantized to two decimal places, and 0 for no ratings.
\<close>

definition stored_average :: "nat list \<Rightarrow> decimal" where
  "stored_average xs = (if xs = [] then 0 else quantize_cent (double_of (mean xs)))"

text \<open>The review a request creates, and the condition under which it may be created.\<close>

definition new_review :: "datetime \<Rightarrow> uuid \<Rightarrow> user \<Rightarrow> review_attrs \<Rightarrow> review" where
  "new_review now new_id request_user attrs =
     \<lparr>rv_id = new_id, rv_created_at = now, rv_updated_at = now,
      rv_booking = bk_id (ra_booking attrs), rv_author = request_user,
      rv_target_caregiver = Some (bk_caregiver (ra_booking attrs)),
      rv_rating = ra_rating attrs, rv_comment = ra_comment attrs\<rparr>"

definition reviewable :: "review_attrs \<Rightarrow> database \<Rightarrow> bool" where
  "reviewable attrs db =
     (bk_status (ra_booking attrs) = ''completed''
      \<and> \<not> (\<exists>r \<in> set (reviews db). rv_booking r = bk_id (ra_booking attrs)))"



text \<open>
  The uniqueness constraints the models declare: the one-to-one user of an owner profile,
  the primary keys of pets and caregivers, the unique code of a service type and
  \<open>unique_together\<close> on caregiver services.
\<close>

definition unique_keys :: "database \<Rightarrow> bool" where
  "unique_keys db =
     (distinct (map owner_user (owner_profiles db))
      \<and> distinct (map pet_id (pets db))
      \<and> distinct (map cg_id (caregiver_profiles db))
      \<and> distinct (map st_code (service_types db))
      \<and> distinct (map (\<lambda>s. (cs_caregiver s, cs_service_type s)) (caregiver_services db)))"

text \<open>The end of the requested booking is a date that \<open>datetime\<close> can hold.\<close>

definition end_representable :: "booking_attrs \<Rightarrow> bool" where
  "end_representable attrs =
     (int (ba_duration_minutes attrs) div 1440 \<le> 999999999
      \<and> 0 \<le> ba_start_datetime attrs + timedelta_minutes (ba_duration_minutes attrs)
      \<and> ba_start_datetime attrs + timedelta_minutes (ba_duration_minutes attrs)
          < MAXORDINAL * MICROSECONDS_PER_DAY)"

text \<open>The reasons for which the specification has a booking request rejected.\<close>

definition pet_missing :: "user \<Rightarrow> booking_attrs \<Rightarrow> database \<Rightarrow> bool" where
  "pet_missing request_user attrs db =
     (\<not> (\<exists>ow \<in> set (owner_profiles db). owner_user ow = request_user
           \<and> (\<exists>p \<in> set (pets db). pet_owner p = owner_id ow \<and> pet_id p = ba_pet_id attrs)))"

definition caregiver_missing :: "booking_attrs \<Rightarrow> database \<Rightarrow> bool" where
  "caregiver_missing attrs db =
     (\<not> (\<exists>c \<in> set (caregiver_profiles db). cg_id c = ba_caregiver_id attrs))"

definition service_type_missing :: "booking_attrs \<Rightarrow> database \<Rightarrow> bool" where
  "service_type_missing attrs db =
     (\<not> (\<exists>s \<in> set (service_types db). st_code s = ba_service_type_code attrs))"

definition active_offering :: "booking_attrs \<Rightarrow> database \<Rightarrow> caregiver_service \<Rightarrow> bool" where
  "active_offering attrs db cs =
     (cs \<in> set (caregiver_services db) \<and> cs_is_active cs
      \<and> cs_caregiver cs = ba_caregiver_id attrs
      \<and> (\<exists>s \<in> set (service_types db).
            st_code s = ba_service_type_code attrs \<and> cs_service_type cs = st_id s))"

definition offering_missing :: "booking_attrs \<Rightarrow> database \<Rightarrow> bool" where
  "offering_missing attrs db = (\<not> (\<exists>cs. active_offering attrs db cs))"

definition start_in_past :: "datetime \<Rightarrow> booking_attrs \<Rightarrow> bool" where
  "start_in_past now attrs = (ba_start_datetime attrs < now)"

definition duration_too_long :: "booking_attrs \<Rightarrow> database \<Rightarrow> bool" where
  "duration_too_long attrs db =
     (\<exists>s \<in> set (service_types db). st_code s = ba_service_type_code attrs
        \<and> ba_duration_minutes attrs > 4 * st_base_duration_minutes s)"

definition caregiver_unavailable :: "booking_attrs \<Rightarrow> database \<Rightarrow> bool" where
  "caregiver_unavailable attrs db =
     (\<exists>c \<in> set (caregiver_profiles db). cg_id c = ba_caregiver_id attrs
        \<and> \<not> is_caregiver_available c (ba_start_datetime attrs)
              (ba_start_datetime attrs + timedelta_minutes (ba_duration_minutes attrs)) db)"

definition booking_rejected :: "datetime \<Rightarrow> user \<Rightarrow> booking_attrs \<Rightarrow> database \<Rightarrow> bool" where
  "booking_rejected now request_user attrs db =
     (pet_missing request_user attrs db \<or> caregiver_missing attrs db
      \<or> service_type_missing attrs db \<or> offering_missing attrs db
      \<or> start_in_past now attrs \<or> duration_too_long attrs db
      \<or> caregiver_unavailable attrs db)"

section \<open>A concrete marketplace\<close>

text \<open>
  The objects of the test suite's \<open>setUp\<close>: an owner with a pet, a caregiver who offers
  the 60-minute service \<open>dog_walk\<close> at 30.00 and is available on Mondays from 08:00 to
  20:00. Day 739004 is a Monday.
\<close>

definition at_time :: "int \<Rightarrow> int \<Rightarrow> time" where
  "at_time h m = (h * 60 + m) * 60000000"

definition monday :: "int \<Rightarrow> int \<Rightarrow> datetime" where
  "monday h m = 739004 * MICROSECONDS_PER_DAY + at_time h m"

definition the_owner :: owner_profile where
  "the_owner = \<lparr>owner_id = 1, owner_user = 11\<rparr>"

definition the_caregiver :: caregiver_profile where
  "the_caregiver = \<lparr>cg_id = 2, cg_user = 12, cg_rating_average = 0, cg_rating_count = 0\<rparr>"

definition the_pet :: pet where
  "the_pet = \<lparr>pet_id = 3, pet_owner = 1\<rparr>"

definition the_service_type :: service_type where
  "the_service_type = \<lparr>st_id = 4, st_code = ''dog_walk'', st_base_duration_minutes = 60\<rparr>"

definition the_caregiver_service :: caregiver_service where
  "the_caregiver_service =
     \<lparr>cs_id = 5, cs_caregiver = 2, cs_service_type = 4, cs_price_per_unit = 30,
      cs_is_active = True\<rparr>"

definition the_availability :: caregiver_availability where
  "the_availability =
     \<lparr>av_id = 6, av_caregiver = 2, av_weekday = 0, av_start_time = at_time 8 0,
      av_end_time = at_time 20 0, av_is_recurring = True\<rparr>"

definition market :: database where
  "market =
     \<lparr>owner_profiles = [the_owner], caregiver_profiles = [the_caregiver], pets = [the_pet],
      service_types = [the_service_type], caregiver_services = [the_caregiver_service],
      availabilities = [the_availability], time_offs = [], bookings = [], reviews = [],
      transaction_logs = []\<rparr>"

text \<open>A request for a walk on that Monday from 10:00 to 11:00, and the booking it creates.\<close>

definition the_request :: booking_attrs where
  "the_request =
     \<lparr>ba_pet_id = 3, ba_caregiver_id = 2, ba_service_type_code = ''dog_walk'',
      ba_start_datetime = monday 10 0, ba_duration_minutes = 60, ba_owner_notes = None\<rparr>"

definition the_booking :: booking where
  "the_booking =
     \<lparr>bk_id = 7, bk_created_at = monday 9 0, bk_updated_at = monday 9 0, bk_owner = 1,
      bk_caregiver = 2, bk_pet = 3, bk_service_type = 4, bk_start_datetime = monday 10 0,
      bk_end_datetime = monday 11 0, bk_duration_minutes = 60, bk_status = ''pending'',
      bk_owner_notes = [], bk_caregiver_notes = [], bk_price_subtotal = 30,
      bk_platform_fee = 9 / 2, bk_caregiver_earnings = 51 / 2,
      bk_payment_status = ''pending''\<rparr>"

definition booked_market :: database where
  "booked_market = market\<lparr>bookings := [the_booking]\<rparr>"

text \<open>
  A request for the same walk starting on 9000-01-01 at 00:00, day 3286817 after
  0001-01-01, that is to last 2147483647 minutes, the largest value of the duration
  column.
\<close>

definition the_long_request :: booking_attrs where
  "the_long_request =
     the_request\<lparr>ba_start_datetime := 3286817 * MICROSECONDS_PER_DAY,
                 ba_duration_minutes := 2147483647\<rparr>"

text \<open>The market once the walk is completed, and the owner's request to review it.\<close>

definition completed_market :: database where
  "completed_market = market\<lparr>bookings := [the_booking\<lparr>bk_status := ''completed''\<rparr>]\<rparr>"

definition the_review_request :: review_attrs where
  "the_review_request =
     \<lparr>ra_booking = the_booking\<lparr>bk_status := ''completed''\<rparr>, ra_rating = 5, ra_comment = []\<rparr>"

text \<open>The same market after the walk was completed and reviewed with five stars.\<close>

definition the_review :: review where
  "the_review =
     \<lparr>rv_id = 8, rv_created_at = monday 12 0, rv_updated_at = monday 12 0, rv_booking = 7,
      rv_author = 11, rv_target_caregiver = Some 2, rv_rating = 5, rv_comment = []\<rparr>"

definition reviewed_market :: database where
  "reviewed_market =
     market\<lparr>caregiver_profiles := [the_caregiver\<lparr>cg_rating_average := 5, cg_rating_count := 1\<rparr>],
            bookings := [the_booking\<lparr>bk_status := ''completed''\<rparr>],
            reviews := [the_review]\<rparr>"

text \<open>The market with one review of the caregiver for each rating of a list.\<close>

definition rated_market :: "nat list \<Rightarrow> database" where
  "rated_market rs =
     market\<lparr>reviews := map
       (\<lambda>(i, r). the_review\<lparr>rv_id := 100 + i, rv_booking := 200 + i, rv_rating := r\<rparr>)
       (enumerate 0 rs)\<rparr>"

section \<open>Unfolding rules\<close>

lemmas status_defs = STATUS_PENDING_def STATUS_ACCEPTED_def STATUS_REJECTED_def
  STATUS_CANCELLED_def STATUS_COMPLETED_def

lemmas market_defs = market_def booked_market_def reviewed_market_def the_owner_def
  the_caregiver_def the_pet_def the_service_type_def the_caregiver_service_def
  the_availability_def the_request_def the_booking_def the_review_def completed_market_def
  the_review_request_def the_long_request_def

lemmas time_defs = monday_def at_time_def MICROSECONDS_PER_DAY_def datetime_date_def
  datetime_time_def datetime_weekday_def timedelta_minutes_def timedelta_def
  datetime_add_def MAXORDINAL_def

section \<open>Rounding\<close>

lemma round_half_even_near: "\<bar>of_int (round_half_even x) - x\<bar> \<le> 1 / 2"
proof -
  have lo: "of_int \<lfloor>x\<rfloor> \<le> x" and hi: "x < of_int \<lfloor>x\<rfloor> + 1"
    by linarith+
  show ?thesis
    using lo hi by (auto simp: round_half_even_def Let_def)
qed

lemma round_half_even_of_int: "round_half_even (of_int n) = n"
  by (simp add: round_half_even_def)

lemma round_half_even_le:
  assumes "x \<le> of_int n"
  shows "round_half_even x \<le> n"
proof (cases "x = of_int n")
  case True
  then show ?thesis by (simp add: round_half_even_of_int)
next
  case False
  with assms have "x < of_int n" by simp
  then have "\<lfloor>x\<rfloor> < n" by (simp add: floor_less_iff)
  then have "\<lfloor>x\<rfloor> + 1 \<le> n" by simp
  then show ?thesis
    by (auto simp: round_half_even_def Let_def)
qed

lemma round_half_even_nonneg:
  assumes "0 \<le> x"
  shows "0 \<le> round_half_even x"
proof -
  from assms have "0 \<le> \<lfloor>x\<rfloor>" by simp
  then show ?thesis by (auto simp: round_half_even_def Let_def)
qed

lemma quantize_cent_is_cents: "is_cents (quantize_cent x)"
  by (simp add: is_cents_def quantize_cent_def)

lemma quantize_cent_near: "\<bar>quantize_cent x - x\<bar> \<le> 1 / 200"
proof -
  have "\<bar>of_int (round_half_even (x * 100)) - x * 100\<bar> \<le> 1 / 2"
    by (rule round_half_even_near)
  then show ?thesis
    by (simp add: quantize_cent_def abs_le_iff field_simps)
qed

lemma quantize_cent_le_cents:
  assumes "is_cents a" and "x \<le> a"
  shows "quantize_cent x \<le> a"
proof -
  from assms(1) have a: "of_int \<lfloor>a * 100\<rfloor> = a * 100"
    by (simp add: is_cents_def)
  from assms(2) have "x * 100 \<le> of_int \<lfloor>a * 100\<rfloor>"
    by (simp add: a)
  then have "round_half_even (x * 100) \<le> \<lfloor>a * 100\<rfloor>"
    by (rule round_half_even_le)
  then have "(of_int (round_half_even (x * 100)) :: rat) \<le> of_int \<lfloor>a * 100\<rfloor>"
    by (simp only: of_int_le_iff)
  then show ?thesis
    by (simp add: quantize_cent_def a field_simps)
qed

section \<open>Commission split\<close>

text \<open>
  C3: for every money amount \<open>a\<close>, not negative, and every fee rate \<open>P\<close> between 0 and 1,
  \<open>compute_commission\<close> returns a platform fee equal to \<open>a * P\<close> rounded to two decimal
  places (a multiple of 0.01 within half a cent of the product) and caregiver earnings
  equal to the amount minus the fee; fee plus earnings is the amount exactly, and
  neither the earnings nor the fee is negative. The function returns the pair and
  nothing else.
\<close>

theorem compute_commission_split:
  assumes "is_money a" and "is_rate P"
  shows "fst (compute_commission P a) = quantize_cent (a * P)
   \<and> is_cents (fst (compute_commission P a))
   \<and> \<bar>fst (compute_commission P a) - a * P\<bar> \<le> 1 / 200
   \<and> snd (compute_commission P a) = a - fst (compute_commission P a)
   \<and> fst (compute_commission P a) + snd (compute_commission P a) = a
   \<and> 0 \<le> fst (compute_commission P a)
   \<and> 0 \<le> snd (compute_commission P a)"
proof -
  from assms have a: "0 \<le> a" "is_cents a" and P: "0 \<le> P" "P \<le> 1"
    by (simp_all add: is_money_def is_rate_def)
  have fee: "fst (compute_commission P a) = quantize_cent (a * P)"
    and earn: "snd (compute_commission P a) = a - quantize_cent (a * P)"
    by (simp_all add: compute_commission_def Let_def)
  from a P have "a * P \<le> a * 1" by (intro mult_left_mono) auto
  then have "quantize_cent (a * P) \<le> a"
    using a(2) by (intro quantize_cent_le_cents) auto
  then have earnings: "0 \<le> a - quantize_cent (a * P)" by simp
  from a P have "0 \<le> a * P * 100" by simp
  then have "0 \<le> round_half_even (a * P * 100)" by (rule round_half_even_nonneg)
  then have positive: "0 \<le> quantize_cent (a * P)"
    by (simp add: quantize_cent_def)
  show ?thesis
    unfolding fee earn
    using quantize_cent_is_cents [of "a * P"] quantize_cent_near [of "a * P"] earnings positive
    by auto
qed

text \<open>The price of the concrete market, 30.00, at a rate of 15 percent: 4.50 and 25.50.\<close>

theorem compute_commission_split_witness:
  "is_money 30 \<and> is_rate (15 / 100)
   \<and> compute_commission (15 / 100) 30 = (9 / 2, 51 / 2)
   \<and> 0 \<le> snd (compute_commission (15 / 100) 30)"
proof -
  have m: "is_money 30" and r: "is_rate (15 / 100)"
    by code_simp+
  have v: "compute_commission (15 / 100) 30 = (9 / 2, 51 / 2)"
    by code_simp
  from compute_commission_split [OF m r] have "0 \<le> snd (compute_commission (15 / 100) 30)"
    by blast
  with m r v show ?thesis by blast
qed

section \<open>Booking status transitions\<close>

lemma allowed_transition_table:
  "(case ALLOWED_TRANSITIONS s of Some x \<Rightarrow> x | None \<Rightarrow> {}) = transition_table s"
  by (simp add: ALLOWED_TRANSITIONS_def transition_table_def status_defs)

lemma change_status_refused:
  "new_status \<notin> transition_table (bk_status self) \<Longrightarrow>
   change_status now new_status self db =
     (Inl (ValueError (''Invalid transition from '' @ bk_status self @ '' to '' @ new_status)),
      self, db)"
  by (simp add: change_status_def allowed_transition_table)

lemma change_status_applied:
  "new_status \<in> transition_table (bk_status self) \<Longrightarrow> persisted self db \<Longrightarrow>
   change_status now new_status self db =
     (Inr (), self\<lparr>bk_status := new_status, bk_updated_at := now\<rparr>,
      db\<lparr>bookings := map
        (\<lambda>r. if bk_id r = bk_id self then r\<lparr>bk_status := new_status, bk_updated_at := now\<rparr> else r)
        (bookings db)\<rparr>)"
  by (simp add: change_status_def allowed_transition_table Booking_save_status_def
      persisted_def Let_def)

text \<open>
  C1: \<open>change_status\<close> on a persisted booking succeeds exactly when the new status is in
  the transition table for the current status (pending to accepted, rejected or
  cancelled; accepted to completed or cancelled; nothing from any other status). A
  transition outside the table raises the invalid-transition error (a \<open>ValueError\<close> in
  the code) and leaves the booking object and the database as they were; a transition
  inside it sets the status of the object and of its row to the new status.
\<close>

theorem change_status_legality:
  "(new_status \<notin> transition_table (bk_status self) \<longrightarrow>
      change_status now new_status self db =
        (Inl (ValueError (''Invalid transition from '' @ bk_status self @ '' to '' @ new_status)),
         self, db))
   \<and> (persisted self db \<longrightarrow>
        (fst (change_status now new_status self db) = Inr ())
          = (new_status \<in> transition_table (bk_status self)))
   \<and> (persisted self db \<and> new_status \<in> transition_table (bk_status self) \<longrightarrow>
        change_status now new_status self db =
          (Inr (), self\<lparr>bk_status := new_status, bk_updated_at := now\<rparr>,
           db\<lparr>bookings := map
             (\<lambda>r. if bk_id r = bk_id self
                  then r\<lparr>bk_status := new_status, bk_updated_at := now\<rparr> else r)
             (bookings db)\<rparr>))"
  using change_status_refused [of new_status self now db]
    change_status_applied [of new_status self db now]
  by (cases "new_status \<in> transition_table (bk_status self)") auto

theorem change_status_legality_witness:
  "persisted the_booking booked_market
   \<and> ''accepted'' \<in> transition_table (bk_status the_booking)
   \<and> ''completed'' \<notin> transition_table (bk_status the_booking)
   \<and> fst (change_status (monday 9 30) ''accepted'' the_booking booked_market) = Inr ()
   \<and> bk_status (fst (snd (change_status (monday 9 30) ''accepted'' the_booking booked_market)))
       = ''accepted''
   \<and> change_status (monday 9 30) ''completed'' the_booking booked_market =
       (Inl (ValueError ''Invalid transition from pending to completed''),
        the_booking, booked_market)"
proof -
  have p: "persisted the_booking booked_market"
    by (simp add: persisted_def exists_qs_def market_defs)
  have a: "''accepted'' \<in> transition_table (bk_status the_booking)"
    by (simp add: transition_table_def market_defs)
  have c: "''completed'' \<notin> transition_table (bk_status the_booking)"
    by (simp add: transition_table_def market_defs)
  have s: "bk_status the_booking = ''pending''"
    by (simp add: market_defs)
  from change_status_legality [of "''accepted''" the_booking "monday 9 30" booked_market]
    change_status_legality [of "''completed''" the_booking "monday 9 30" booked_market]
    p a c
  show ?thesis by (simp add: s)
qed

section \<open>Availability\<close>

text \<open>
  C2: \<open>is_caregiver_available\<close> returns true exactly when (1) some availability record of
  the caregiver has the weekday of \<open>start\<close> and a window that covers the time of day of
  \<open>start\<close> and of \<open>end\<close>, bounds included, (2) no time-off record of the caregiver has
  \<open>date_from <= start.date()\<close> and \<open>date_to >= end.date()\<close>, and (3) no pending or
  accepted booking of the caregiver has \<open>start_datetime < end\<close> and
  \<open>end_datetime > start\<close>. Only the weekday of \<open>start\<close> is consulted. The function
  returns a truth value and nothing else, so it has no effect on the database.
\<close>

theorem is_caregiver_available_iff:
  "is_caregiver_available caregiver start end_dt db \<longleftrightarrow>
     (\<exists>a \<in> set (availabilities db).
         av_caregiver a = cg_id caregiver \<and> av_weekday a = datetime_weekday start
         \<and> av_start_time a \<le> datetime_time start \<and> av_end_time a \<ge> datetime_time end_dt)
     \<and> \<not> (\<exists>t \<in> set (time_offs db).
         to_caregiver t = cg_id caregiver
         \<and> to_date_from t \<le> datetime_date start \<and> to_date_to t \<ge> datetime_date end_dt)
     \<and> \<not> (\<exists>b \<in> set (bookings db).
         bk_caregiver b = cg_id caregiver
         \<and> (bk_status b = ''pending'' \<or> bk_status b = ''accepted'')
         \<and> bk_start_datetime b < end_dt \<and> bk_end_datetime b > start)"
  by (auto simp: is_caregiver_available_def Let_def exists_qs_def filter_empty_conv status_defs)

text \<open>
  On the Monday of the concrete market, with a pending booking from 10:00 to 11:00, the
  caregiver is free from 14:00 to 15:00.
\<close>

theorem is_caregiver_available_iff_witness:
  "is_caregiver_available the_caregiver (monday 14 0) (monday 15 0) booked_market
   \<and> (\<exists>a \<in> set (availabilities booked_market).
         av_caregiver a = cg_id the_caregiver \<and> av_weekday a = datetime_weekday (monday 14 0)
         \<and> av_start_time a \<le> datetime_time (monday 14 0)
         \<and> av_end_time a \<ge> datetime_time (monday 15 0))
   \<and> \<not> (\<exists>b \<in> set (bookings booked_market).
         bk_caregiver b = cg_id the_caregiver
         \<and> (bk_status b = ''pending'' \<or> bk_status b = ''accepted'')
         \<and> bk_start_datetime b < monday 15 0 \<and> bk_end_datetime b > monday 14 0)"
proof -
  have "is_caregiver_available the_caregiver (monday 14 0) (monday 15 0) booked_market"
    by (simp add: is_caregiver_available_def Let_def exists_qs_def market_defs time_defs
        status_defs)
  with is_caregiver_available_iff [of the_caregiver "monday 14 0" "monday 15 0" booked_market]
  show ?thesis by blast
qed

section \<open>Payment marking\<close>

lemma Booking_caregiver_update:
  "Booking_caregiver (self\<lparr>bk_payment_status := x, bk_updated_at := y\<rparr>)
     (db\<lparr>bookings := rows\<rparr>) = Booking_caregiver self db"
  by (simp add: Booking_caregiver_def)

lemma mark_paid_already:
  "bk_payment_status self = PAYMENT_PAID \<Longrightarrow> mark_paid now new_id self db = (Inr (), self, db)"
  by (simp add: mark_paid_def)

lemma mark_paid_unpaid:
  assumes "bk_payment_status self \<noteq> PAYMENT_PAID" and "persisted self db"
    and "Booking_caregiver self db = Inr caregiver"
  shows "mark_paid now new_id self db =
     (Inr (), self\<lparr>bk_payment_status := ''paid'', bk_updated_at := now\<rparr>,
      db\<lparr>bookings := paid_rows now self (bookings db),
         transaction_logs := transaction_logs db @ [payout_entry new_id now self caregiver]\<rparr>)"
  using assms
    by (simp add: mark_paid_def Booking_save_payment_status_def Let_def persisted_def
        Booking_caregiver_update
        TransactionLog_create_def payout_entry_def paid_rows_def PAYMENT_PAID_def
        DIRECTION_CREDIT_def)

lemma mark_paid_leaves_paid:
  "bk_payment_status (fst (snd (mark_paid now new_id self db))) = PAYMENT_PAID"
  by (simp add: mark_paid_def Booking_save_payment_status_def Let_def split: sum.splits)

lemma mark_paid_failure:
  "fst (mark_paid now new_id self db) \<noteq> Inr () \<Longrightarrow> snd (snd (mark_paid now new_id self db)) = db"
  by (simp add: mark_paid_def Booking_save_payment_status_def Let_def split: sum.splits if_splits)

lemma mark_paid_success:
  assumes "mark_paid now new_id self db = (Inr (), self', db')" and "db' \<noteq> db"
  shows "\<exists>caregiver. Booking_caregiver self db = Inr caregiver
     \<and> bookings db' = paid_rows now self (bookings db)
     \<and> transaction_logs db' = transaction_logs db @ [payout_entry new_id now self caregiver]"
proof -
  from assms have unpaid: "bk_payment_status self \<noteq> PAYMENT_PAID"
    by (auto simp: mark_paid_def)
  from assms(1) unpaid show ?thesis
    by (auto simp: mark_paid_def Booking_save_payment_status_def Let_def
        Booking_caregiver_update
        TransactionLog_create_def payout_entry_def paid_rows_def PAYMENT_PAID_def
        DIRECTION_CREDIT_def split: sum.splits if_splits)
qed

lemma mark_paid_times_paid:
  "bk_payment_status self = PAYMENT_PAID \<Longrightarrow> mark_paid_times calls self db = (self, db)"
  by (induction calls) (auto simp: mark_paid_already)

lemma mark_paid_times_first:
  "mark_paid_times ((now, new_id) # calls) self db =
     snd (mark_paid now new_id self db)"
proof -
  obtain r self' db' where m: "mark_paid now new_id self db = (r, self', db')"
    by (cases "mark_paid now new_id self db") auto
  with mark_paid_leaves_paid [of now new_id self db]
  have "bk_payment_status self' = PAYMENT_PAID" by simp
  then have "mark_paid_times calls self' db' = (self', db')"
    by (rule mark_paid_times_paid)
  with m show ?thesis by simp
qed

text \<open>
  C5: \<open>mark_paid\<close> is idempotent. On a booking whose payment status is already paid it
  changes neither the object nor the database. On an unpaid, persisted booking whose
  caregiver row is found it sets the payment status to paid, on the object and on its
  row, and appends exactly one credit entry of the caregiver's earnings for the
  caregiver's user. A further call on the object just marked does nothing, so any number
  of calls leaves what the first one left: one ledger entry, not two. The two writes are
  atomic: a call either leaves the database as it was, or it succeeds with both the
  status update and the ledger entry.
\<close>

theorem mark_paid_idempotent:
  "(bk_payment_status self = ''paid'' \<longrightarrow> mark_paid now new_id self db = (Inr (), self, db))
   \<and> (bk_payment_status self \<noteq> ''paid'' \<and> persisted self db
        \<and> Booking_caregiver self db = Inr caregiver \<longrightarrow>
        mark_paid now new_id self db =
          (Inr (), self\<lparr>bk_payment_status := ''paid'', bk_updated_at := now\<rparr>,
           db\<lparr>bookings := paid_rows now self (bookings db),
              transaction_logs := transaction_logs db
                @ [payout_entry new_id now self caregiver]\<rparr>))
   \<and> mark_paid now' new_id' (fst (snd (mark_paid now new_id self db)))
        (snd (snd (mark_paid now new_id self db)))
      = (Inr (), snd (mark_paid now new_id self db))
   \<and> mark_paid_times ((now, new_id) # calls) self db = snd (mark_paid now new_id self db)
   \<and> (snd (snd (mark_paid now new_id self db)) = db
       \<or> fst (mark_paid now new_id self db) = Inr ()
         \<and> (\<exists>c. Booking_caregiver self db = Inr c
              \<and> bookings (snd (snd (mark_paid now new_id self db)))
                  = paid_rows now self (bookings db)
              \<and> transaction_logs (snd (snd (mark_paid now new_id self db)))
                  = transaction_logs db @ [payout_entry new_id now self c]))"
proof (intro conjI impI)
  assume "bk_payment_status self = ''paid''"
  then show "mark_paid now new_id self db = (Inr (), self, db)"
    by (simp add: mark_paid_already PAYMENT_PAID_def)
next
  assume "bk_payment_status self \<noteq> ''paid'' \<and> persisted self db
        \<and> Booking_caregiver self db = Inr caregiver"
  then show "mark_paid now new_id self db =
          (Inr (), self\<lparr>bk_payment_status := ''paid'', bk_updated_at := now\<rparr>,
           db\<lparr>bookings := paid_rows now self (bookings db),
              transaction_logs := transaction_logs db
                @ [payout_entry new_id now self caregiver]\<rparr>)"
    by (simp add: mark_paid_unpaid PAYMENT_PAID_def)
next
  show "mark_paid now' new_id' (fst (snd (mark_paid now new_id self db)))
        (snd (snd (mark_paid now new_id self db)))
      = (Inr (), snd (mark_paid now new_id self db))"
    using mark_paid_leaves_paid [of now new_id self db]
    by (simp add: mark_paid_already)
next
  show "mark_paid_times ((now, new_id) # calls) self db = snd (mark_paid now new_id self db)"
    by (rule mark_paid_times_first)
next
  obtain r self' db' where m: "mark_paid now new_id self db = (r, self', db')"
    by (cases "mark_paid now new_id self db") auto
  show "snd (snd (mark_paid now new_id self db)) = db
       \<or> fst (mark_paid now new_id self db) = Inr ()
         \<and> (\<exists>c. Booking_caregiver self db = Inr c
              \<and> bookings (snd (snd (mark_paid now new_id self db)))
                  = paid_rows now self (bookings db)
              \<and> transaction_logs (snd (snd (mark_paid now new_id self db)))
                  = transaction_logs db @ [payout_entry new_id now self c])"
  proof (cases "db' = db")
    case True
    with m show ?thesis by simp
  next
    case False
    with m mark_paid_failure [of now new_id self db] have r: "r = Inr ()" by auto
    from mark_paid_success [OF m [unfolded r] False] m r show ?thesis by simp
  qed
qed


theorem mark_paid_idempotent_witness:
  "bk_payment_status the_booking \<noteq> ''paid'' \<and> persisted the_booking booked_market
   \<and> Booking_caregiver the_booking booked_market = Inr the_caregiver
   \<and> transaction_logs (snd (mark_paid_times [(monday 12 0, 20), (monday 13 0, 21)]
        the_booking booked_market))
      = [payout_entry 20 (monday 12 0) the_booking the_caregiver]"
proof -
  have u: "bk_payment_status the_booking \<noteq> ''paid''"
    by (simp add: market_defs)
  have p: "persisted the_booking booked_market"
    by (simp add: persisted_def exists_qs_def market_defs)
  have c: "Booking_caregiver the_booking booked_market = Inr the_caregiver"
    by (simp add: Booking_caregiver_def get_qs_def market_defs)
  have l: "transaction_logs booked_market = []"
    by (simp add: market_defs)
  note inst = mark_paid_idempotent [where self = the_booking and now = "monday 12 0"
      and new_id = 20 and db = booked_market and caregiver = the_caregiver
      and calls = "[(monday 13 0, 21)]"]
  from inst u p c have m: "mark_paid (monday 12 0) 20 the_booking booked_market =
      (Inr (), the_booking\<lparr>bk_payment_status := ''paid'', bk_updated_at := monday 12 0\<rparr>,
       booked_market\<lparr>bookings := paid_rows (monday 12 0) the_booking (bookings booked_market),
         transaction_logs := transaction_logs booked_market
           @ [payout_entry 20 (monday 12 0) the_booking the_caregiver]\<rparr>)"
    by blast
  from inst have t: "mark_paid_times [(monday 12 0, 20), (monday 13 0, 21)] the_booking
      booked_market = snd (mark_paid (monday 12 0) 20 the_booking booked_market)"
    by blast
  have "transaction_logs (snd (mark_paid_times [(monday 12 0, 20), (monday 13 0, 21)]
        the_booking booked_market))
      = [payout_entry 20 (monday 12 0) the_booking the_caregiver]"
    unfolding t m by (simp add: l)
  with u p c show ?thesis by blast
qed

text \<open>
  C10: \<open>mark_paid\<close> never reads \<open>Booking.status\<close>. Replacing the status of the object
  by any value changes the outcome only in that the object returned carries that
  status; whatever the status (pending, accepted, rejected, cancelled, completed or any
  other string), an unpaid, persisted booking whose caregiver row is found is marked
  paid and a credit entry of the caregiver's earnings is appended for the caregiver's
  user.
\<close>

theorem mark_paid_ignores_status:
  "mark_paid now new_id (self\<lparr>bk_status := s\<rparr>) db =
     (fst (mark_paid now new_id self db),
      (fst (snd (mark_paid now new_id self db)))\<lparr>bk_status := s\<rparr>,
      snd (snd (mark_paid now new_id self db)))
   \<and> (bk_payment_status self \<noteq> ''paid'' \<and> persisted self db
        \<and> Booking_caregiver self db = Inr caregiver \<longrightarrow>
        mark_paid now new_id (self\<lparr>bk_status := s\<rparr>) db =
          (Inr (), self\<lparr>bk_status := s, bk_payment_status := ''paid'', bk_updated_at := now\<rparr>,
           db\<lparr>bookings := paid_rows now self (bookings db),
              transaction_logs := transaction_logs db
                @ [payout_entry new_id now self caregiver]\<rparr>))"
proof (intro conjI impI)
  show "mark_paid now new_id (self\<lparr>bk_status := s\<rparr>) db =
     (fst (mark_paid now new_id self db),
      (fst (snd (mark_paid now new_id self db)))\<lparr>bk_status := s\<rparr>,
      snd (snd (mark_paid now new_id self db)))"
    by (simp add: mark_paid_def Booking_save_payment_status_def Let_def Booking_caregiver_def
        split: sum.splits cong: if_cong)
next
  assume a: "bk_payment_status self \<noteq> ''paid'' \<and> persisted self db
        \<and> Booking_caregiver self db = Inr caregiver"
  then have "bk_payment_status (self\<lparr>bk_status := s\<rparr>) \<noteq> PAYMENT_PAID"
    and "persisted (self\<lparr>bk_status := s\<rparr>) db"
    and "Booking_caregiver (self\<lparr>bk_status := s\<rparr>) db = Inr caregiver"
    by (simp_all add: PAYMENT_PAID_def persisted_def Booking_caregiver_def)
  from mark_paid_unpaid [OF this]
  show "mark_paid now new_id (self\<lparr>bk_status := s\<rparr>) db =
          (Inr (), self\<lparr>bk_status := s, bk_payment_status := ''paid'', bk_updated_at := now\<rparr>,
           db\<lparr>bookings := paid_rows now self (bookings db),
              transaction_logs := transaction_logs db
                @ [payout_entry new_id now self caregiver]\<rparr>)"
    by (simp add: paid_rows_def payout_entry_def)
qed

text \<open>A rejected booking is marked paid, and 25.50 is credited to the caregiver's user.\<close>

theorem mark_paid_ignores_status_witness:
  "bk_payment_status the_booking \<noteq> ''paid'' \<and> persisted the_booking booked_market
   \<and> Booking_caregiver the_booking booked_market = Inr the_caregiver
   \<and> fst (mark_paid (monday 12 0) 20 (the_booking\<lparr>bk_status := ''rejected''\<rparr>) booked_market)
       = Inr ()
   \<and> bk_payment_status (fst (snd (mark_paid (monday 12 0) 20
        (the_booking\<lparr>bk_status := ''rejected''\<rparr>) booked_market))) = ''paid''
   \<and> map (\<lambda>t. (tl_user t, tl_direction t, tl_amount t))
        (transaction_logs (snd (snd (mark_paid (monday 12 0) 20
           (the_booking\<lparr>bk_status := ''rejected''\<rparr>) booked_market))))
      = [(Some 12, ''credit'', 51 / 2)]"
proof -
  have u: "bk_payment_status the_booking \<noteq> ''paid''"
    by (simp add: market_defs)
  have p: "persisted the_booking booked_market"
    by (simp add: persisted_def exists_qs_def market_defs)
  have c: "Booking_caregiver the_booking booked_market = Inr the_caregiver"
    by (simp add: Booking_caregiver_def get_qs_def market_defs)
  have l: "transaction_logs booked_market = []"
    and e: "bk_caregiver_earnings the_booking = 51 / 2" and g: "cg_user the_caregiver = 12"
    by (simp_all add: market_defs)
  note inst = mark_paid_ignores_status [where now = "monday 12 0" and new_id = 20
      and self = the_booking and s = "''rejected''" and db = booked_market
      and caregiver = the_caregiver]
  from inst u p c
  have m: "mark_paid (monday 12 0) 20 (the_booking\<lparr>bk_status := ''rejected''\<rparr>) booked_market =
      (Inr (), the_booking\<lparr>bk_status := ''rejected'', bk_payment_status := ''paid'',
         bk_updated_at := monday 12 0\<rparr>,
       booked_market\<lparr>bookings := paid_rows (monday 12 0) the_booking (bookings booked_market),
         transaction_logs := transaction_logs booked_market
           @ [payout_entry 20 (monday 12 0) the_booking the_caregiver]\<rparr>)"
    by blast
  show ?thesis
    unfolding m using u p c by (simp add: l e g payout_entry_def)
qed

section \<open>Rating recomputation\<close>

lemma get_qs_Inr: "get_qs xs = Inr y \<longleftrightarrow> xs = [y]"
  by (auto simp: get_qs_def split: list.splits)

lemma quantize_cent_0: "quantize_cent 0 = 0"
  by (simp add: quantize_cent_def round_half_even_def)

lemma Coalesce_Avg_From_3_2: "Coalesce (Avg xs) (Value From_3_2 d) = Inl FieldError"
  by (simp add: Coalesce_def Avg_def Value_def resolve_output_field_def List.map_filter_def)

lemma Coalesce_Avg_Before_3_2:
  "Coalesce (Avg xs) (Value Before_3_2 0) = Inr (if xs = [] then 0 else double_of (mean xs))"
  by (simp add: Coalesce_def Avg_def Value_def resolve_output_field_def List.map_filter_def
      mean_def)

lemma Coalesce_Count: "Coalesce (Count rows) (Value dj 0) = Inr (length rows)"
  by (cases dj)
    (simp_all add: Coalesce_def Count_def Value_def resolve_output_field_def
      List.map_filter_def)

lemma recalc_ratings_From_3_2: "recalc_ratings From_3_2 self db = (Inl FieldError, self, db)"
  by (simp add: recalc_ratings_def Let_def Coalesce_Avg_From_3_2)

lemma recalc_ratings_saved:
  assumes "\<exists>r \<in> set (caregiver_profiles db). cg_id r = cg_id self"
  shows "recalc_ratings Before_3_2 self db =
     (Inr (),
      self\<lparr>cg_rating_average := stored_average (ratings_of db (cg_id self)),
           cg_rating_count := length (ratings_of db (cg_id self))\<rparr>,
      db\<lparr>caregiver_profiles := map
        (\<lambda>r. if cg_id r = cg_id self
             then r\<lparr>cg_rating_average := stored_average (ratings_of db (cg_id self)),
                    cg_rating_count := length (ratings_of db (cg_id self))\<rparr>
             else r)
        (caregiver_profiles db)\<rparr>)"
proof -
  from assms have "exists_qs (filter (\<lambda>r. cg_id r = cg_id self) (caregiver_profiles db))"
    by (auto simp: exists_qs_def filter_empty_conv)
  then show ?thesis
    by (simp add: recalc_ratings_def Let_def CaregiverProfile_save_ratings_def
        Coalesce_Avg_Before_3_2 Coalesce_Count stored_average_def quantize_cent_0
        ratings_of_def cong: if_cong)
qed

lemma ratings_of_rated_market: "ratings_of (rated_market rs) 2 = rs"
proof -
  have "map rv_rating (filter (\<lambda>r. rv_target_caregiver r = Some 2)
      (map (\<lambda>(i, r). the_review\<lparr>rv_id := 100 + i, rv_booking := 200 + i, rv_rating := r\<rparr>)
        (enumerate n rs))) = rs" for n
    by (induction rs arbitrary: n) (simp_all add: the_review_def)
  then show ?thesis
    by (simp add: ratings_of_def rated_market_def)
qed

text \<open>
  The float decides a tie: the mean 1.075 of three ratings 2 and thirty-seven ratings 1
  is carried as a double just below it and stored as 1.07, where rounding the mean
  itself to the even neighbour gives 1.08.
\<close>

lemma stored_average_tie:
  "stored_average (replicate 3 2 @ replicate 37 1) = 107 / 100
   \<and> rounded_mean (replicate 3 2 @ replicate 37 1) = 108 / 100"
  by code_simp

text \<open>
  C7 fails on the code. From Django 3.2 on \<open>Coalesce(Avg('rating'), 0)\<close> joins a
  \<open>FloatField\<close> with an \<open>IntegerField\<close> and \<open>recalc_ratings\<close> raises \<open>FieldError\<close> for
  every caregiver: for the caregiver of the concrete market with reviews rated 4, 5 and
  3 it leaves the object and the database as they were, where the claim has it store
  4.00 and 3. Before Django 3.2 the method returns, and for a caregiver with three
  ratings 2 and thirty-seven ratings 1 it stores 1.07 and 40, where the mean 1.075
  rounded to two decimal places is 1.08.
\<close>

theorem recalc_ratings_diverges:
  "ratings_of (rated_market [4, 5, 3]) (cg_id the_caregiver) = [4, 5, 3]
   \<and> recalc_ratings From_3_2 the_caregiver (rated_market [4, 5, 3])
       = (Inl FieldError, the_caregiver, rated_market [4, 5, 3])
   \<and> ratings_of (rated_market (replicate 3 2 @ replicate 37 1)) (cg_id the_caregiver)
       = replicate 3 2 @ replicate 37 1
   \<and> rounded_mean (replicate 3 2 @ replicate 37 1) = 108 / 100
   \<and> fst (snd (recalc_ratings Before_3_2 the_caregiver
         (rated_market (replicate 3 2 @ replicate 37 1))))
       = the_caregiver\<lparr>cg_rating_average := 107 / 100, cg_rating_count := 40\<rparr>"
proof -
  have row: "\<exists>r \<in> set (caregiver_profiles (rated_market rs)). cg_id r = cg_id the_caregiver"
    for rs
    by (simp add: rated_market_def market_def)
  have id: "cg_id the_caregiver = 2" by (simp add: the_caregiver_def)
  show ?thesis
    by (simp only: recalc_ratings_From_3_2 recalc_ratings_saved [OF row] id
        ratings_of_rated_market stored_average_tie) simp
qed

text \<open>
  Before Django 3.2 the method stores the mean of the ratings, carried as a float and
  quantized to two decimal places, and their number: 4.00 and 3 after the ratings 4, 5
  and 3, then 4.25 and 4 after a further 5, and 0.00 and 0 without reviews.
\<close>

lemma recalc_ratings_Before_3_2:
  "fst (snd (recalc_ratings Before_3_2 the_caregiver (rated_market [4, 5, 3])))
     = the_caregiver\<lparr>cg_rating_average := 4, cg_rating_count := 3\<rparr>
   \<and> fst (snd (recalc_ratings Before_3_2 the_caregiver (rated_market [4, 5, 3, 5])))
     = the_caregiver\<lparr>cg_rating_average := 17 / 4, cg_rating_count := 4\<rparr>
   \<and> fst (snd (recalc_ratings Before_3_2 the_caregiver (rated_market [])))
     = the_caregiver\<lparr>cg_rating_average := 0, cg_rating_count := 0\<rparr>"
proof -
  have row: "\<exists>r \<in> set (caregiver_profiles (rated_market rs)). cg_id r = cg_id the_caregiver"
    for rs
    by (simp add: rated_market_def market_def)
  have id: "cg_id the_caregiver = 2" by (simp add: the_caregiver_def)
  have v: "stored_average [4, 5, 3] = 4" "stored_average [4, 5, 3, 5] = 17 / 4"
    "stored_average [] = 0"
    by code_simp+
  show ?thesis
    by (simp add: recalc_ratings_saved [OF row] id ratings_of_rated_market v)
qed


section \<open>Review creation guard\<close>

lemma Booking_caregiver_found:
  assumes "Booking_caregiver booking db = Inr c"
  shows "cg_id c = bk_caregiver booking" and "c \<in> set (caregiver_profiles db)"
    and "filter (\<lambda>r. cg_id r = cg_id c) (caregiver_profiles db) = [c]"
proof -
  from assms have f: "filter (\<lambda>r. cg_id r = bk_caregiver booking) (caregiver_profiles db) = [c]"
    by (simp add: Booking_caregiver_def get_qs_Inr)
  then have "c \<in> set (filter (\<lambda>r. cg_id r = bk_caregiver booking) (caregiver_profiles db))"
    by simp
  then show "cg_id c = bk_caregiver booking" and "c \<in> set (caregiver_profiles db)"
    by simp_all
  with f show "filter (\<lambda>r. cg_id r = cg_id c) (caregiver_profiles db) = [c]"
    by simp
qed

lemma create_review_not_completed:
  "bk_status (ra_booking attrs) \<noteq> ''completed'' \<Longrightarrow>
   create_review dj now new_id request_user attrs db =
     (Inl (ValidationError ''Reviews are only allowed for completed bookings''), db)"
  by (simp add: create_review_def ReviewSerializer_validate_def Let_def STATUS_COMPLETED_def)

lemma create_review_duplicate:
  "bk_status (ra_booking attrs) = ''completed'' \<Longrightarrow>
   \<exists>r \<in> set (reviews db). rv_booking r = bk_id (ra_booking attrs) \<Longrightarrow>
   create_review dj now new_id request_user attrs db =
     (Inl (ValidationError ''A review already exists for this booking''), db)"
  by (auto simp: create_review_def ReviewSerializer_validate_def Let_def STATUS_COMPLETED_def
      exists_qs_def filter_empty_conv)

lemma create_review_no_caregiver:
  "Booking_caregiver (ra_booking attrs) db = Inl e \<Longrightarrow>
   \<exists>e'. create_review dj now new_id request_user attrs db = (Inl e', db)"
  by (simp add: create_review_def ReviewSerializer_validate_def Let_def)

lemma create_review_saves:
  assumes ok: "reviewable attrs db"
    and cg: "Booking_caregiver (ra_booking attrs) db = Inr c"
  shows "create_review dj now new_id request_user attrs db =
     (case recalc_ratings dj c
          (db\<lparr>reviews := reviews db @ [new_review now new_id request_user attrs]\<rparr>) of
        (Inl e, _, _) \<Rightarrow>
          (Inl e, db\<lparr>reviews := reviews db @ [new_review now new_id request_user attrs]\<rparr>)
      | (Inr _, _, db2) \<Rightarrow> (Inr (new_review now new_id request_user attrs), db2))"
proof -
  note found = Booking_caregiver_found [OF cg]
  let ?rv = "new_review now new_id request_user attrs"
  let ?db1 = "db\<lparr>reviews := reviews db @ [?rv]\<rparr>"
  from ok have v: "ReviewSerializer_validate attrs db = Inr (attrs, c)"
    by (auto simp: reviewable_def ReviewSerializer_validate_def Let_def STATUS_COMPLETED_def
        exists_qs_def filter_empty_conv cg)
  from ok have ins: "Review_super_save True now ?rv db = Inr ?db1"
    by (auto simp: reviewable_def Review_super_save_def exists_qs_def filter_empty_conv
        new_review_def)
  have tgt: "Review_target_caregiver ?rv ?db1 = Inr c"
    by (simp add: Review_target_caregiver_def new_review_def found(1) [symmetric] found(3)
        get_qs_def)
  have some: "rv_target_caregiver ?rv \<noteq> None"
    by (simp add: new_review_def)
  have rv: "\<lparr>rv_id = new_id, rv_created_at = now, rv_updated_at = now,
      rv_booking = bk_id (ra_booking attrs), rv_author = request_user,
      rv_target_caregiver = Some (cg_id c),
      rv_rating = ra_rating attrs, rv_comment = ra_comment attrs\<rparr> = ?rv"
    by (simp add: new_review_def found(1))
  have "Review_save dj True now ?rv db =
     (case recalc_ratings dj c ?db1 of
        (Inl e, _, _) \<Rightarrow> (Inl e, ?db1)
      | (Inr _, _, db2) \<Rightarrow> (Inr (), db2))"
    by (simp add: Review_save_def Let_def ins tgt some)
  then show ?thesis
    by (simp add: create_review_def v ReviewSerializer_create_def Let_def rv
        split: prod.splits sum.splits)
qed


lemma create_review_raises:
  assumes ok: "reviewable attrs db"
    and cg: "Booking_caregiver (ra_booking attrs) db = Inr c"
  shows "create_review From_3_2 now new_id request_user attrs db =
     (Inl FieldError,
      db\<lparr>reviews := reviews db @ [new_review now new_id request_user attrs]\<rparr>)"
  unfolding create_review_saves [OF ok cg]
  by (simp add: recalc_ratings_From_3_2)

lemma create_review_cases:
  "(\<exists>e. create_review dj now new_id request_user attrs db = (Inl e, db))
   \<or> (reviewable attrs db \<and> (\<exists>c. Booking_caregiver (ra_booking attrs) db = Inr c))"
proof (cases "reviewable attrs db")
  case False
  then show ?thesis
    using create_review_not_completed [of attrs dj now new_id request_user db]
      create_review_duplicate [of attrs db dj now new_id request_user]
    by (auto simp: reviewable_def)
next
  case True
  then show ?thesis
    using create_review_no_caregiver [of attrs db _ dj now new_id request_user]
    by (cases "Booking_caregiver (ra_booking attrs) db") auto
qed

lemma create_review_success:
  assumes "fst (create_review dj now new_id request_user attrs db) = Inr rv"
  shows "dj = Before_3_2" and "reviewable attrs db"
    and "\<exists>c. Booking_caregiver (ra_booking attrs) db = Inr c"
proof -
  from assms create_review_cases [of dj now new_id request_user attrs db]
  obtain c where ok: "reviewable attrs db" "Booking_caregiver (ra_booking attrs) db = Inr c"
    by auto
  then show "reviewable attrs db" and "\<exists>c. Booking_caregiver (ra_booking attrs) db = Inr c"
    by auto
  from assms create_review_raises [OF ok, of now new_id request_user]
  show "dj = Before_3_2" by (cases dj) auto
qed

text \<open>
  C8 holds of the code only before Django 3.2. From Django 3.2 on the creation of a
  review for a completed booking without a review stores the review and then fails,
  since \<open>recalc_ratings\<close> raises \<open>FieldError\<close> after \<open>Review.save\<close> has inserted the row
  and no transaction encloses the two: a failure that leaves a review behind, where the
  claim has every failure persist none.
\<close>

theorem create_review_field_error:
  "reviewable the_review_request completed_market
   \<and> reviews completed_market = []
   \<and> create_review From_3_2 (monday 12 0) 8 11 the_review_request completed_market
       = (Inl FieldError, completed_market\<lparr>reviews := [the_review]\<rparr>)"
proof -
  have ok: "reviewable the_review_request completed_market"
    by (simp add: reviewable_def market_defs)
  have cg: "Booking_caregiver (ra_booking the_review_request) completed_market
      = Inr the_caregiver"
    by (simp add: Booking_caregiver_def get_qs_def market_defs)
  have rv: "new_review (monday 12 0) 8 11 the_review_request = the_review"
    by (simp add: new_review_def market_defs)
  have none: "reviews completed_market = []"
    by (simp add: market_defs)
  from create_review_raises [OF ok cg, of "monday 12 0" 8 11] ok none show ?thesis
    by (simp add: rv)
qed

text \<open>
  The guard itself holds on every version: a booking that is not completed and a booking
  that has a review are refused with a \<open>ValidationError\<close> and the database unchanged,
  and a creation that succeeds was for a completed booking without a review.
\<close>

lemma create_review_guard:
  "(bk_status (ra_booking attrs) \<noteq> ''completed'' \<longrightarrow>
      create_review dj now new_id request_user attrs db =
        (Inl (ValidationError ''Reviews are only allowed for completed bookings''), db))
   \<and> (bk_status (ra_booking attrs) = ''completed''
        \<and> (\<exists>r \<in> set (reviews db). rv_booking r = bk_id (ra_booking attrs)) \<longrightarrow>
      create_review dj now new_id request_user attrs db =
        (Inl (ValidationError ''A review already exists for this booking''), db))
   \<and> (\<forall>rv. fst (create_review dj now new_id request_user attrs db) = Inr rv \<longrightarrow>
        reviewable attrs db)"
  using create_review_not_completed [of attrs dj now new_id request_user db]
    create_review_duplicate [of attrs db dj now new_id request_user]
    create_review_success(2) [of dj now new_id request_user attrs db]
  by blast



section \<open>Consistency of the rating aggregates\<close>







section \<open>Booking creation\<close>

lemma single_match:
  assumes "distinct (map k xs)" and "\<And>x. P x \<Longrightarrow> k x = v"
  shows "filter P xs = [] \<or> (\<exists>y. filter P xs = [y])"
  using assms(1)
proof (induction xs)
  case Nil
  then show ?case by simp
next
  case (Cons x xs)
  show ?case
  proof (cases "P x")
    case True
    then have "k x = v" by (rule assms(2))
    have "\<not> P y" if "y \<in> set xs" for y
    proof
      assume "P y"
      then have "k y = k x" using \<open>k x = v\<close> by (simp add: assms(2))
      with that Cons.prems show False by (auto simp: image_iff)
    qed
    then have "\<forall>y \<in> set xs. \<not> P y" by blast
    then have "filter P xs = []" by (simp add: filter_empty_conv)
    with True show ?thesis by simp
  next
    case False
    with Cons show ?thesis by simp
  qed
qed

lemma filter_single:
  assumes "filter P xs = [y]"
  shows "y \<in> set xs" and "P y" and "\<forall>x \<in> set xs. P x \<longrightarrow> x = y"
proof -
  have s: "set (filter P xs) = {y}" by (simp add: assms)
  then show "y \<in> set xs" and "P y" by auto
  from s show "\<forall>x \<in> set xs. P x \<longrightarrow> x = y" by auto
qed

lemma get_qs_simps: "get_qs [] = Inl DoesNotExist" "get_qs [y] = Inr y"
  by (simp_all add: get_qs_def)


lemma validate_outcome:
  assumes uk: "unique_keys db" and er: "end_representable attrs"
  shows "(booking_rejected now request_user attrs db
      \<and> (\<exists>m. BookingCreateSerializer_validate P now request_user attrs db
             = Inl (ValidationError m)))
   \<or> (\<not> booking_rejected now request_user attrs db
      \<and> (\<exists>ow p c st cs.
           BookingCreateSerializer_validate P now request_user attrs db =
             Inr \<lparr>bv_owner = ow, bv_pet = p, bv_caregiver = c, bv_service_type = st,
                  bv_end_datetime = ba_start_datetime attrs
                    + timedelta_minutes (ba_duration_minutes attrs),
                  bv_price_subtotal = cs_price_per_unit cs,
                  bv_platform_fee = fst (compute_commission P (cs_price_per_unit cs)),
                  bv_caregiver_earnings = snd (compute_commission P (cs_price_per_unit cs))\<rparr>
           \<and> active_offering attrs db cs
           \<and> owner_user ow = request_user \<and> pet_owner p = owner_id ow
           \<and> pet_id p = ba_pet_id attrs \<and> cg_id c = ba_caregiver_id attrs
           \<and> st_code st = ba_service_type_code attrs))"
    (is "?rejected \<or> ?accepted")
proof -
  let ?V = "BookingCreateSerializer_validate P now request_user attrs db"
  let ?P1 = "\<lambda>p. owner_user p = request_user"
  let ?P3 = "\<lambda>c. cg_id c = ba_caregiver_id attrs"
  let ?P4 = "\<lambda>s. st_code s = ba_service_type_code attrs"
  from er have td: "timedelta (ba_duration_minutes attrs)
      = Inr (timedelta_minutes (ba_duration_minutes attrs))"
    and da: "datetime_add (ba_start_datetime attrs) (timedelta_minutes (ba_duration_minutes attrs))
      = Inr (ba_start_datetime attrs + timedelta_minutes (ba_duration_minutes attrs))"
    by (simp_all add: end_representable_def timedelta_def datetime_add_def Let_def)
  from uk have d1: "distinct (map owner_user (owner_profiles db))"
    and d2: "distinct (map pet_id (pets db))"
    and d3: "distinct (map cg_id (caregiver_profiles db))"
    and d4: "distinct (map st_code (service_types db))"
    and d5: "distinct (map (\<lambda>s. (cs_caregiver s, cs_service_type s)) (caregiver_services db))"
    by (simp_all add: unique_keys_def)
  from single_match [OF d1, of ?P1 request_user]
  consider "filter ?P1 (owner_profiles db) = []"
    | ow where "filter ?P1 (owner_profiles db) = [ow]"
    by auto
  then show ?thesis
  proof cases
    case 1
    then have "?V = Inl (ValidationError ''Only owners can create bookings'')"
      by (simp add: BookingCreateSerializer_validate_def get_qs_simps)
    moreover from 1 have "pet_missing request_user attrs db"
      by (auto simp: pet_missing_def filter_empty_conv)
    ultimately show ?thesis by (simp add: booking_rejected_def)
  next
    case (2 ow)
    note ow = filter_single [OF 2]
    let ?P2 = "\<lambda>p. pet_owner p = owner_id ow \<and> pet_id p = ba_pet_id attrs"
    from single_match [OF d2, of ?P2 "ba_pet_id attrs"]
    consider "filter ?P2 (pets db) = []" | p where "filter ?P2 (pets db) = [p]"
      by auto
    then show ?thesis
    proof cases
      case 1
      then have "?V = Inl (ValidationError ''Pet not found'')"
        by (simp add: BookingCreateSerializer_validate_def get_qs_simps 2)
      moreover from 1 ow(3) have "pet_missing request_user attrs db"
        by (auto simp: pet_missing_def filter_empty_conv)
      ultimately show ?thesis by (simp add: booking_rejected_def)
    next
      case (2 p)
      note p = filter_single [OF 2]
      note g12 = \<open>filter ?P1 (owner_profiles db) = [ow]\<close> 2
      from single_match [OF d3, of ?P3 "ba_caregiver_id attrs"]
      consider "filter ?P3 (caregiver_profiles db) = []"
        | c where "filter ?P3 (caregiver_profiles db) = [c]"
        by auto
      then show ?thesis
      proof cases
        case 1
        then have "?V = Inl (ValidationError ''Caregiver not found'')"
          by (simp add: BookingCreateSerializer_validate_def get_qs_simps g12)
        moreover from 1 have "caregiver_missing attrs db"
          by (auto simp: caregiver_missing_def filter_empty_conv)
        ultimately show ?thesis by (simp add: booking_rejected_def)
      next
        case (2 c)
        note c = filter_single [OF 2]
        note g123 = g12 2
        from single_match [OF d4, of ?P4 "ba_service_type_code attrs"]
        consider "filter ?P4 (service_types db) = []"
          | st where "filter ?P4 (service_types db) = [st]"
          by auto
        then show ?thesis
        proof cases
          case 1
          then have "?V = Inl (ValidationError ''Service type not found'')"
            by (simp add: BookingCreateSerializer_validate_def get_qs_simps g123)
          moreover from 1 have "service_type_missing attrs db"
            by (auto simp: service_type_missing_def filter_empty_conv)
          ultimately show ?thesis by (simp add: booking_rejected_def)
        next
          case (2 st)
          note st = filter_single [OF 2]
          note g1234 = g123 2
          let ?P5 = "\<lambda>s. cs_caregiver s = cg_id c \<and> cs_service_type s = st_id st
              \<and> cs_is_active s"
          from single_match [OF d5, of ?P5 "(cg_id c, st_id st)"]
          consider "filter ?P5 (caregiver_services db) = []"
            | cs where "filter ?P5 (caregiver_services db) = [cs]"
            by auto
          then show ?thesis
          proof cases
            case 1
            then have "?V = Inl (ValidationError ''Caregiver does not offer this service'')"
              by (simp add: BookingCreateSerializer_validate_def get_qs_simps g1234)
            moreover from 1 c(2) st(3) have "offering_missing attrs db"
              by (auto simp: offering_missing_def active_offering_def filter_empty_conv)
            ultimately show ?thesis by (simp add: booking_rejected_def)
          next
            case (2 cs)
            note cs = filter_single [OF 2]
            note g = g1234 2
            let ?start = "ba_start_datetime attrs"
            let ?end = "?start + timedelta_minutes (ba_duration_minutes attrs)"
            have offer: "active_offering attrs db cs"
              using cs(1,2) c(2) st(1,2) by (auto simp: active_offering_def)
            show ?thesis
            proof (cases "?start < now")
              case True
              then have "?V = Inl (ValidationError ''Start time must be in the future'')"
                by (simp add: BookingCreateSerializer_validate_def get_qs_simps g td da Let_def)
              moreover from True have "start_in_past now attrs"
                by (simp add: start_in_past_def)
              ultimately show ?thesis by (simp add: booking_rejected_def)
            next
              case future: False
              show ?thesis
              proof (cases "ba_duration_minutes attrs > st_base_duration_minutes st * 4")
                case True
                with future have "?V = Inl (ValidationError
                    ''Duration exceeds allowed maximum for service type'')"
                  by (simp add: BookingCreateSerializer_validate_def get_qs_simps g td da Let_def)
                moreover from True st(1,2) have "duration_too_long attrs db"
                  by (auto simp: duration_too_long_def mult.commute)
                ultimately show ?thesis by (simp add: booking_rejected_def)
              next
                case short: False
                show ?thesis
                proof (cases "is_caregiver_available c ?start ?end db")
                  case False
                  with future short have "?V = Inl (ValidationError
                      ''Caregiver is not available for the selected time'')"
                    by (simp add: BookingCreateSerializer_validate_def get_qs_simps g td da Let_def)
                  moreover from False c(1,2) have "caregiver_unavailable attrs db"
                    by (auto simp: caregiver_unavailable_def)
                  ultimately show ?thesis by (simp add: booking_rejected_def)
                next
                  case True
                  with future short have v: "?V =
                      Inr \<lparr>bv_owner = ow, bv_pet = p, bv_caregiver = c, bv_service_type = st,
                        bv_end_datetime = ?end,
                        bv_price_subtotal = cs_price_per_unit cs,
                        bv_platform_fee = fst (compute_commission P (cs_price_per_unit cs)),
                        bv_caregiver_earnings
                          = snd (compute_commission P (cs_price_per_unit cs))\<rparr>"
                    by (simp add: BookingCreateSerializer_validate_def get_qs_simps g td da Let_def
                        split: prod.splits)
                  have n1: "\<not> pet_missing request_user attrs db"
                    using ow(1,2) p(1,2) by (auto simp: pet_missing_def)
                  have n2: "\<not> caregiver_missing attrs db"
                    using c(1,2) by (auto simp: caregiver_missing_def)
                  have n3: "\<not> service_type_missing attrs db"
                    using st(1,2) by (auto simp: service_type_missing_def)
                  have n4: "\<not> offering_missing attrs db"
                    using offer by (auto simp: offering_missing_def)
                  have n5: "\<not> start_in_past now attrs"
                    using future by (simp add: start_in_past_def)
                  have n6: "\<not> duration_too_long attrs db"
                    using short st(3) by (auto simp: duration_too_long_def mult.commute)
                  have n7: "\<not> caregiver_unavailable attrs db"
                    using True c(3) by (auto simp: caregiver_unavailable_def)
                  from n1 n2 n3 n4 n5 n6 n7
                  have "\<not> booking_rejected now request_user attrs db"
                    by (simp add: booking_rejected_def)
                  moreover from v offer ow(2) p(2) c(2) st(2) have "\<exists>ow p c st cs.
                    ?V = Inr \<lparr>bv_owner = ow, bv_pet = p, bv_caregiver = c,
                        bv_service_type = st, bv_end_datetime = ?end,
                        bv_price_subtotal = cs_price_per_unit cs,
                        bv_platform_fee = fst (compute_commission P (cs_price_per_unit cs)),
                        bv_caregiver_earnings
                          = snd (compute_commission P (cs_price_per_unit cs))\<rparr>
                    \<and> active_offering attrs db cs
                    \<and> owner_user ow = request_user \<and> pet_owner p = owner_id ow
                    \<and> pet_id p = ba_pet_id attrs \<and> cg_id c = ba_caregiver_id attrs
                    \<and> st_code st = ba_service_type_code attrs"
                    by blast
                  ultimately show ?thesis by blast
                qed
              qed
            qed
          qed
        qed
      qed
    qed
  qed
qed


text \<open>
  In a database that keeps the uniqueness constraints of the models, and for a request
  whose end is a date that \<open>datetime\<close> can hold, booking creation is rejected with a
  \<open>ValidationError\<close> exactly when the pet of the requesting owner, the caregiver, the
  service type or the caregiver's active offering of it is missing, the start lies in
  the past, the duration exceeds four times the base duration of the service type, or
  the caregiver is not available from the start to the start plus the duration.
  Otherwise one booking row is added, with the end at start plus duration, status and
  payment status pending, the price of the caregiver's active offering as subtotal, and
  the commission split computed from that price. Every failure, of whatever kind,
  leaves the database as it was.
\<close>

lemma create_booking_in_range:
  assumes "unique_keys db" and "end_representable attrs"
  shows "(booking_rejected now request_user attrs db \<longrightarrow>
       (\<exists>m. create_booking P now new_id request_user attrs db
          = (Inl (ValidationError m), db)))
   \<and> (\<not> booking_rejected now request_user attrs db \<longrightarrow>
       (\<exists>b cs. create_booking P now new_id request_user attrs db
            = (Inr b, db\<lparr>bookings := bookings db @ [b]\<rparr>)
          \<and> active_offering attrs db cs
          \<and> bk_id b = new_id \<and> bk_pet b = ba_pet_id attrs
          \<and> bk_caregiver b = ba_caregiver_id attrs
          \<and> bk_start_datetime b = ba_start_datetime attrs
          \<and> bk_duration_minutes b = ba_duration_minutes attrs
          \<and> bk_end_datetime b
              = ba_start_datetime attrs + timedelta_minutes (ba_duration_minutes attrs)
          \<and> bk_status b = ''pending'' \<and> bk_payment_status b = ''pending''
          \<and> bk_price_subtotal b = cs_price_per_unit cs
          \<and> (bk_platform_fee b, bk_caregiver_earnings b)
              = compute_commission P (cs_price_per_unit cs)))
   \<and> (\<forall>e. fst (create_booking P now new_id request_user attrs db) = Inl e \<longrightarrow>
        snd (create_booking P now new_id request_user attrs db) = db)"
proof (intro conjI impI allI)
  assume "booking_rejected now request_user attrs db"
  with validate_outcome [OF assms, where now = now and request_user = request_user and P = P]
  show "\<exists>m. create_booking P now new_id request_user attrs db = (Inl (ValidationError m), db)"
    by (auto simp: create_booking_def)
next
  assume "\<not> booking_rejected now request_user attrs db"
  with validate_outcome [OF assms, where now = now and request_user = request_user and P = P]
  obtain ow p c st cs where v: "BookingCreateSerializer_validate P now request_user attrs db =
      Inr \<lparr>bv_owner = ow, bv_pet = p, bv_caregiver = c, bv_service_type = st,
           bv_end_datetime = ba_start_datetime attrs
             + timedelta_minutes (ba_duration_minutes attrs),
           bv_price_subtotal = cs_price_per_unit cs,
           bv_platform_fee = fst (compute_commission P (cs_price_per_unit cs)),
           bv_caregiver_earnings = snd (compute_commission P (cs_price_per_unit cs))\<rparr>"
    and offer: "active_offering attrs db cs"
    and ids: "pet_id p = ba_pet_id attrs" "cg_id c = ba_caregiver_id attrs"
    by blast
  show "\<exists>b cs. create_booking P now new_id request_user attrs db
            = (Inr b, db\<lparr>bookings := bookings db @ [b]\<rparr>)
          \<and> active_offering attrs db cs
          \<and> bk_id b = new_id \<and> bk_pet b = ba_pet_id attrs
          \<and> bk_caregiver b = ba_caregiver_id attrs
          \<and> bk_start_datetime b = ba_start_datetime attrs
          \<and> bk_duration_minutes b = ba_duration_minutes attrs
          \<and> bk_end_datetime b
              = ba_start_datetime attrs + timedelta_minutes (ba_duration_minutes attrs)
          \<and> bk_status b = ''pending'' \<and> bk_payment_status b = ''pending''
          \<and> bk_price_subtotal b = cs_price_per_unit cs
          \<and> (bk_platform_fee b, bk_caregiver_earnings b)
              = compute_commission P (cs_price_per_unit cs)"
    using offer ids
    by (simp add: create_booking_def v BookingCreateSerializer_create_def Let_def
        STATUS_PENDING_def PAYMENT_PENDING_def) blast
next
  fix e
  assume "fst (create_booking P now new_id request_user attrs db) = Inl e"
  then show "snd (create_booking P now new_id request_user attrs db) = db"
    by (simp add: create_booking_def BookingCreateSerializer_create_def Let_def
        split: sum.splits)
qed

text \<open>In the concrete market the request for Monday 10:00 creates the booking.\<close>

lemma the_booking_created:
  "create_booking (15 / 100) (monday 9 0) 7 11 the_request market
     = (Inr the_booking, booked_market)"
  by (simp add: create_booking_def BookingCreateSerializer_validate_def
      BookingCreateSerializer_create_def get_qs_def is_caregiver_available_def exists_qs_def
      compute_commission_def quantize_cent_def round_half_even_def Let_def
      market_defs time_defs status_defs PAYMENT_PENDING_def)

text \<open>
  C4 fails on the code for a request whose end lies beyond the last date. The end is
  computed before the start, the duration and the availability are checked, so the
  request of the owner for a walk from 9000-01-01 that is to last 2147483647 minutes,
  far more than four times the 60 minutes of the service, leaves \<open>validate\<close> with an
  \<open>OverflowError\<close>, where the claim has it rejected with a \<open>ValidationError\<close>. No row
  is stored.
\<close>

theorem create_booking_overflow:
  "duration_too_long the_long_request market
   \<and> \<not> start_in_past (monday 9 0) the_long_request
   \<and> create_booking (15 / 100) (monday 9 0) 7 11 the_long_request market
       = (Inl OverflowError, market)"
  by (simp add: duration_too_long_def start_in_past_def create_booking_def
      BookingCreateSerializer_validate_def get_qs_def Let_def market_defs time_defs)

section \<open>The money invariant\<close>

lemma compute_commission_balanced:
  "compute_commission P a = (fee, earnings) \<Longrightarrow> a = fee + earnings"
  by (auto simp: compute_commission_def Let_def)

lemma validate_balanced:
  assumes "BookingCreateSerializer_validate P now request_user attrs db = Inr v"
  shows "bv_price_subtotal v = bv_platform_fee v + bv_caregiver_earnings v"
  using assms
  by (auto simp: BookingCreateSerializer_validate_def Let_def
      split: sum.splits error.splits if_splits prod.splits
      dest: compute_commission_balanced)

lemma create_booking_step:
  "(\<exists>e. create_booking P now new_id request_user attrs db = (Inl e, db))
   \<or> (\<exists>b. create_booking P now new_id request_user attrs db
          = (Inr b, db\<lparr>bookings := bookings db @ [b]\<rparr>) \<and> money_balanced b)"
proof (cases "BookingCreateSerializer_validate P now request_user attrs db")
  case (Inl e)
  then show ?thesis by (simp add: create_booking_def)
next
  case (Inr v)
  from validate_balanced [OF Inr] show ?thesis
    by (simp add: create_booking_def Inr BookingCreateSerializer_create_def Let_def
        money_balanced_def)
qed

lemma change_status_money:
  "map money_fields (bookings (snd (snd (change_status now new_status self db))))
     = map money_fields (bookings db)"
  by (simp add: change_status_def Booking_save_status_def Let_def money_fields_def)

lemma mark_paid_money:
  "map money_fields (bookings (snd (snd (mark_paid now new_id self db))))
     = map money_fields (bookings db)"
  by (simp add: mark_paid_def Booking_save_payment_status_def Let_def money_fields_def
      TransactionLog_create_def split: sum.splits)

lemma recalc_ratings_bookings:
  "bookings (snd (snd (recalc_ratings dj self db))) = bookings db"
  by (simp add: recalc_ratings_def CaregiverProfile_save_ratings_def Let_def
      split: sum.splits)

lemma create_review_bookings:
  "bookings (snd (create_review dj now new_id request_user attrs db)) = bookings db"
proof -
  from create_review_cases [of dj now new_id request_user attrs db]
  show ?thesis
  proof
    assume "\<exists>e. create_review dj now new_id request_user attrs db = (Inl e, db)"
    then show ?thesis by auto
  next
    assume "reviewable attrs db \<and> (\<exists>c. Booking_caregiver (ra_booking attrs) db = Inr c)"
    then obtain c where ok: "reviewable attrs db"
      "Booking_caregiver (ra_booking attrs) db = Inr c"
      by auto
    let ?db1 = "db\<lparr>reviews := reviews db @ [new_review now new_id request_user attrs]\<rparr>"
    from recalc_ratings_bookings [of dj c ?db1]
    show ?thesis
      unfolding create_review_saves [OF ok]
      by (auto split: prod.splits sum.splits)
  qed
qed

lemma core_step_money:
  assumes "core_step P db db'"
  shows "\<exists>new. map money_fields (bookings db') = map money_fields (bookings db @ new)
     \<and> (\<forall>b \<in> set new. money_balanced b)"
  using assms
proof cases
  case (step_create_booking now new_id request_user attrs res)
  with create_booking_step [of P now new_id request_user attrs db]
  consider "db' = db" | b where "db' = db\<lparr>bookings := bookings db @ [b]\<rparr>" "money_balanced b"
    by auto
  then show ?thesis
  proof cases
    case 1
    then have "map money_fields (bookings db') = map money_fields (bookings db @ [])
        \<and> (\<forall>b \<in> set []. money_balanced b)" by simp
    then show ?thesis by blast
  next
    case (2 b)
    then have "map money_fields (bookings db') = map money_fields (bookings db @ [b])
        \<and> (\<forall>x \<in> set [b]. money_balanced x)" by simp
    then show ?thesis by blast
  qed
next
  case (step_change_status now new_status self res self')
  with change_status_money [of now new_status self db]
  have "map money_fields (bookings db') = map money_fields (bookings db @ [])
      \<and> (\<forall>b \<in> set []. money_balanced b)" by simp
  then show ?thesis by blast
next
  case (step_mark_paid now new_id self res self')
  with mark_paid_money [of now new_id self db]
  have "map money_fields (bookings db') = map money_fields (bookings db @ [])
      \<and> (\<forall>b \<in> set []. money_balanced b)" by simp
  then show ?thesis by blast
next
  case (step_create_review dj now new_id request_user attrs ret)
  with create_review_bookings [of dj now new_id request_user attrs db]
  have "map money_fields (bookings db') = map money_fields (bookings db @ [])
      \<and> (\<forall>b \<in> set []. money_balanced b)" by simp
  then show ?thesis by blast
qed

lemma core_steps_money:
  assumes "(core_step P)\<^sup>*\<^sup>* db db'"
  shows "\<exists>new. map money_fields (bookings db') = map money_fields (bookings db @ new)
     \<and> (\<forall>b \<in> set new. money_balanced b)"
  using assms
proof (induction rule: rtranclp_induct)
  case base
  have "map money_fields (bookings db) = map money_fields (bookings db @ [])
      \<and> (\<forall>b \<in> set []. money_balanced b)" by simp
  then show ?case by blast
next
  case (step y z)
  from step.IH obtain new1 where 1: "map money_fields (bookings y)
      = map money_fields (bookings db @ new1)" "\<forall>b \<in> set new1. money_balanced b"
    by blast
  from core_step_money [OF step.hyps(2)] obtain new2 where 2: "map money_fields (bookings z)
      = map money_fields (bookings y @ new2)" "\<forall>b \<in> set new2. money_balanced b"
    by blast
  from 1 2 have "map money_fields (bookings z) = map money_fields (bookings db @ (new1 @ new2))
      \<and> (\<forall>b \<in> set (new1 @ new2). money_balanced b)"
    by auto
  then show ?case by blast
qed

lemma money_balanced_fields:
  "money_fields a = money_fields b \<Longrightarrow> money_balanced a = money_balanced b"
  by (simp add: money_fields_def money_balanced_def)

text \<open>
  C6: \<open>price_subtotal = platform_fee + caregiver_earnings\<close> holds for every booking at
  creation and after any sequence of operations of the core (booking creation, status
  changes, \<open>mark_paid\<close>, review creation). Along such a sequence the booking table only
  grows by created bookings, each of them balanced, and the identifier and the three
  money fields of every row already present stay as they are: no operation writes them
  after creation.
\<close>

theorem money_invariant:
  "((core_step P)\<^sup>*\<^sup>* db db' \<longrightarrow>
      (\<exists>new. map money_fields (bookings db') = map money_fields (bookings db @ new)
         \<and> (\<forall>b \<in> set new. money_balanced b))
      \<and> ((\<forall>b \<in> set (bookings db). money_balanced b) \<longrightarrow>
          (\<forall>b \<in> set (bookings db'). money_balanced b)))
   \<and> (\<forall>b. fst (create_booking P now new_id request_user attrs db) = Inr b \<longrightarrow>
        money_balanced b)"
proof (intro conjI impI allI ballI)
  assume "(core_step P)\<^sup>*\<^sup>* db db'"
  then show "\<exists>new. map money_fields (bookings db') = map money_fields (bookings db @ new)
         \<and> (\<forall>b \<in> set new. money_balanced b)"
    by (rule core_steps_money)
next
  fix b
  assume steps: "(core_step P)\<^sup>*\<^sup>* db db'"
    and old: "\<forall>b \<in> set (bookings db). money_balanced b"
    and b: "b \<in> set (bookings db')"
  from core_steps_money [OF steps] obtain new
    where m: "map money_fields (bookings db') = map money_fields (bookings db @ new)"
      and n: "\<forall>b \<in> set new. money_balanced b"
    by blast
  from b have "money_fields b \<in> set (map money_fields (bookings db'))" by simp
  with m have "money_fields b \<in> money_fields ` set (bookings db @ new)" by auto
  then obtain a where "a \<in> set (bookings db @ new)" "money_fields b = money_fields a"
    by blast
  with old n money_balanced_fields [of b a] show "money_balanced b" by auto
next
  fix b
  assume "fst (create_booking P now new_id request_user attrs db) = Inr b"
  with create_booking_step [of P now new_id request_user attrs db]
  show "money_balanced b" by auto
qed

text \<open>The concrete market, from the empty booking table through a creation and a payment.\<close>

theorem money_invariant_witness:
  "(core_step (15 / 100))\<^sup>*\<^sup>* market
     (snd (snd (mark_paid (monday 12 0) 20 the_booking booked_market)))
   \<and> list_all money_balanced (bookings market)
   \<and> fst (create_booking (15 / 100) (monday 9 0) 7 11 the_request market) = Inr the_booking
   \<and> money_balanced the_booking
   \<and> bookings (snd (snd (mark_paid (monday 12 0) 20 the_booking booked_market))) \<noteq> []
   \<and> list_all money_balanced
       (bookings (snd (snd (mark_paid (monday 12 0) 20 the_booking booked_market))))"
proof -
  let ?db = "snd (snd (mark_paid (monday 12 0) 20 the_booking booked_market))"
  have 1: "core_step (15 / 100) market booked_market"
    by (rule step_create_booking [OF the_booking_created])
  have 2: "core_step (15 / 100) booked_market ?db"
    by (rule step_mark_paid [of "monday 12 0" 20 the_booking booked_market
          "fst (mark_paid (monday 12 0) 20 the_booking booked_market)"
          "fst (snd (mark_paid (monday 12 0) 20 the_booking booked_market))"]) simp
  from 1 2 have steps: "(core_step (15 / 100))\<^sup>*\<^sup>* market ?db" by auto
  have old: "\<forall>b \<in> set (bookings market). money_balanced b"
    by (simp add: market_def)
  have c: "fst (create_booking (15 / 100) (monday 9 0) 7 11 the_request market)
      = Inr the_booking"
    by (simp only: the_booking_created fst_conv)
  have ne: "bookings ?db \<noteq> []"
    using mark_paid_money [of "monday 12 0" 20 the_booking booked_market]
    by (auto simp: booked_market_def)
  note inst = money_invariant [where P = "15 / 100" and db = market and db' = ?db
      and now = "monday 9 0" and new_id = 7 and request_user = 11 and attrs = the_request]
  from inst steps old have all: "\<forall>b \<in> set (bookings ?db). money_balanced b"
    by blast
  from inst c have "money_balanced the_booking" by blast
  with steps old c ne all show ?thesis by (simp add: list_all_iff)
qed

end
